theory Spec2Isabelle
  imports Complex_Main "HOL-Library.AList"
begin

section \<open>Python values and exceptions\<close>

text \<open>
  The exceptions that can leave the wrapper: those of the vendor library (element access,
  session) and those of the interpreter (\<open>NameError\<close>, \<open>KeyError\<close>, ...). An
  operation that can raise returns \<open>error + 'a\<close>, with \<open>Inl\<close> for the exception.
\<close>

datatype error =
    NotFoundException
  | IndexOutOfRangeException
  | InvalidConversionException
  | InvalidStateException
  | StopIteration
  | NameError string
  | KeyError string
  | AttributeError string
  | IndexError
  | ValueError

datatype date = Date (year: nat) (month: nat) (day: nat)

text \<open>
  Row and column labels of a pandas object. \<open>Stamp l\<close> is the \<open>Timestamp\<close> that
  \<open>pandas.to_datetime\<close> makes of the label \<open>l\<close>; the conversion is pandas' own and is
  kept symbolic.
\<close>

datatype label = Key string | Pos nat | Day date | Stamp label

datatype cell = NaN | Num real | Txt string

record frame =
  index :: "label list"
  columns :: "label list"
  cells :: "cell list list"

datatype pyval =
    PyNone
  | PyBool bool
  | PyInt int
  | PyStr string
  | PyDate date
  | PyCell cell
  | PyList "pyval list"
  | PyFrame frame

text \<open>Truth value of a Python object, as \<open>if x\<close> and \<open>x if c else y\<close> test it.\<close>

fun truthy :: "pyval \<Rightarrow> bool" where
  "truthy PyNone = False"
| "truthy (PyBool b) = b"
| "truthy (PyInt i) = (i \<noteq> 0)"
| "truthy (PyStr s) = (s \<noteq> [])"
| "truthy (PyDate d) = True"
| "truthy (PyCell c) = (case c of NaN \<Rightarrow> True | Num x \<Rightarrow> x \<noteq> 0 | Txt t \<Rightarrow> t \<noteq> [])"
| "truthy (PyList xs) = (xs \<noteq> [])"
| "truthy (PyFrame f) = True"

text \<open>\<open>x == True\<close>: only the boolean \<open>True\<close> and the numbers equal to one.\<close>

fun eq_True :: "pyval \<Rightarrow> bool" where
  "eq_True (PyBool b) = b"
| "eq_True (PyInt i) = (i = 1)"
| "eq_True (PyCell c) = (c = Num 1)"
| "eq_True v = False"

text \<open>An argument that the code accepts as one string or as a list of strings.\<close>

datatype strarg = One string | Many "string list"

fun len :: "strarg \<Rightarrow> nat" where
  "len (One s) = length s"
| "len (Many xs) = length xs"

text \<open>\<open>if type(x) == str: x = [x]\<close>\<close>

fun as_list :: "strarg \<Rightarrow> string list" where
  "as_list (One s) = [s]"
| "as_list (Many xs) = xs"

text \<open>\<open>d.strftime('%Y%m%d')\<close>: four digits of year, two of month, two of day.\<close>

definition digit :: "nat \<Rightarrow> char" where
  "digit n = ''0123456789'' ! (n mod 10)"

definition strftime_Ymd :: "date \<Rightarrow> string" where
  "strftime_Ymd d =
     [digit (year d div 1000), digit (year d div 100), digit (year d div 10), digit (year d),
      digit (month d div 10), digit (month d),
      digit (day d div 10), digit (day d)]"

text \<open>Sequencing: the first exception ends the computation.\<close>

definition and_then :: "error + 'a \<Rightarrow> ('a \<Rightarrow> error + 'b) \<Rightarrow> error + 'b" where
  "and_then r f = (case r of Inl e \<Rightarrow> Inl e | Inr x \<Rightarrow> f x)"

text \<open>A list comprehension or loop whose body can raise stops at the first exception.\<close>

fun traverse :: "('a \<Rightarrow> error + 'b) \<Rightarrow> 'a list \<Rightarrow> error + 'b list" where
  "traverse f [] = Inr []"
| "traverse f (x # xs) =
     (case f x of
        Inl e \<Rightarrow> Inl e
      | Inr y \<Rightarrow> (case traverse f xs of Inl e \<Rightarrow> Inl e | Inr ys \<Rightarrow> Inr (y # ys)))"

section \<open>The vendor library\<close>

text \<open>
  The vendor's objects are opaque; they are modelled by what their accessors return.
  A scalar element can always be read as a string, and as a float or a datetime when the
  vendor can convert it (\<open>InvalidConversionException\<close> otherwise). A sequence has named
  sub-elements; an array has values. Every element has a name.
\<close>

datatype element =
    Scalar (name: string) (as_string: string) (as_float: "real option") (as_datetime: "date option")
  | Seq (name: string) (children: "element list")
  | Arr (name: string) (items: "element list")

fun lookup :: "string \<Rightarrow> element list \<Rightarrow> element option" where
  "lookup n [] = None"
| "lookup n (e # es) = (if name e = n then Some e else lookup n es)"

fun getElement :: "element \<Rightarrow> string \<Rightarrow> error + element" where
  "getElement (Seq _ kids) n = (case lookup n kids of None \<Rightarrow> Inl NotFoundException | Some e \<Rightarrow> Inr e)"
| "getElement _ n = Inl NotFoundException"

fun getElementAt :: "element \<Rightarrow> nat \<Rightarrow> error + element" where
  "getElementAt (Seq _ kids) j = (if j < length kids then Inr (kids ! j) else Inl IndexOutOfRangeException)"
| "getElementAt _ j = Inl IndexOutOfRangeException"

fun hasElement :: "element \<Rightarrow> string \<Rightarrow> bool" where
  "hasElement (Seq _ kids) n = (lookup n kids \<noteq> None)"
| "hasElement _ n = False"

fun numElements :: "element \<Rightarrow> nat" where
  "numElements (Seq _ kids) = length kids"
| "numElements _ = 0"

fun numValues :: "element \<Rightarrow> nat" where
  "numValues (Arr _ vs) = length vs"
| "numValues _ = 1"

fun getValueAsElement :: "element \<Rightarrow> nat \<Rightarrow> error + element" where
  "getValueAsElement (Arr _ vs) i = (if i < length vs then Inr (vs ! i) else Inl IndexOutOfRangeException)"
| "getValueAsElement (Seq n kids) i = (if i = 0 then Inr (Seq n kids) else Inl IndexOutOfRangeException)"
| "getValueAsElement (Scalar _ _ _ _) i = Inl InvalidConversionException"

text \<open>\<open>e.values()\<close>, the iterator over the values of an element.\<close>

fun values_of :: "element \<Rightarrow> element list" where
  "values_of (Arr _ vs) = vs"
| "values_of e = [e]"

fun getValueAsString :: "element \<Rightarrow> error + string" where
  "getValueAsString (Scalar _ s _ _) = Inr s"
| "getValueAsString _ = Inl InvalidConversionException"

fun getValueAsFloat :: "element \<Rightarrow> error + real" where
  "getValueAsFloat (Scalar _ _ (Some x) _) = Inr x"
| "getValueAsFloat _ = Inl InvalidConversionException"

fun getValueAsDatetime :: "element \<Rightarrow> error + date" where
  "getValueAsDatetime (Scalar _ _ _ (Some d)) = Inr d"
| "getValueAsDatetime _ = Inl InvalidConversionException"

definition getElementAsString :: "element \<Rightarrow> string \<Rightarrow> error + string" where
  "getElementAsString e n = and_then (getElement e n) getValueAsString"

definition getElementAsFloat :: "element \<Rightarrow> string \<Rightarrow> error + real" where
  "getElementAsFloat e n = and_then (getElement e n) getValueAsFloat"

definition getElementAsDatetime :: "element \<Rightarrow> string \<Rightarrow> error + date" where
  "getElementAsDatetime e n = and_then (getElement e n) getValueAsDatetime"

text \<open>The names the module builds once (lines 16 to 23).\<close>

definition DATE :: string where "DATE = ''date''"
definition FIELD_DATA :: string where "FIELD_DATA = ''fieldData''"
definition SECURITY :: string where "SECURITY = ''security''"
definition SECURITY_DATA :: string where "SECURITY_DATA = ''securityData''"

datatype event_type =
    ADMIN | SESSION_STATUS | SUBSCRIPTION_STATUS | REQUEST_STATUS
  | RESPONSE | PARTIAL_RESPONSE | SUBSCRIPTION_DATA | SERVICE_STATUS | TIMEOUT

text \<open>An event carries its type and its messages; a message is read as an element.\<close>

record event =
  eventType :: event_type
  messages :: "element list"

text \<open>\<open>blpapi.event.MessageIterator(event).next()\<close>\<close>

definition first_message :: "event \<Rightarrow> error + element" where
  "first_message ev = (case messages ev of [] \<Rightarrow> Inl StopIteration | m # _ \<Rightarrow> Inr m)"

text \<open>
  A request as the calls \<open>createRequest\<close>, \<open>append\<close>, \<open>set\<close> and the override
  elements build it.
\<close>

record request =
  service :: string
  operation :: string
  req_securities :: "string list"
  req_fields :: "string list"
  overrides :: "(string \<times> pyval) list list"
  settings :: "(string \<times> pyval) list"

definition createRequest :: "string \<Rightarrow> string \<Rightarrow> request" where
  "createRequest svc opn =
     \<lparr>service = svc, operation = opn, req_securities = [], req_fields = [], overrides = [], settings = []\<rparr>"

definition set_elem :: "string \<Rightarrow> pyval \<Rightarrow> request \<Rightarrow> request" where
  "set_elem k v r = r\<lparr>settings := AList.update k v (settings r)\<rparr>"

definition append_security :: "string \<Rightarrow> request \<Rightarrow> request" where
  "append_security x r = r\<lparr>req_securities := req_securities r @ [x]\<rparr>"

definition append_field :: "string \<Rightarrow> request \<Rightarrow> request" where
  "append_field x r = r\<lparr>req_fields := req_fields r @ [x]\<rparr>"

text \<open>
  \<open>o = request.getElement('overrides').appendElement()\<close> adds an empty override
  element; \<open>o.setElement(k, v)\<close> sets a sub-element of the one added last.
\<close>

definition appendElement :: "request \<Rightarrow> request" where
  "appendElement r = r\<lparr>overrides := overrides r @ [[]]\<rparr>"

definition setElement :: "string \<Rightarrow> pyval \<Rightarrow> request \<Rightarrow> request" where
  "setElement k v r =
     (case rev (overrides r) of
        [] \<Rightarrow> r
      | ov # earlier \<Rightarrow> r\<lparr>overrides := rev earlier @ [AList.update k v ov]\<rparr>)"

text \<open>
  The session: \<open>incoming k\<close> is what the \<open>k\<close>-th call of \<open>nextEvent\<close> gives (an event,
  or an exception of the vendor library); \<open>cursor\<close> counts the calls made; \<open>sent\<close> are
  the requests accepted so far; \<open>refuses\<close> says which requests \<open>sendRequest\<close> rejects
  with an exception. \<open>nextEvent\<close> is called without a timeout, so it gives no event of its
  own making.
\<close>

record session =
  incoming :: "nat \<Rightarrow> error + event"
  cursor :: nat
  sent :: "request list"
  refuses :: "request \<Rightarrow> error option"

definition sendRequest :: "session \<Rightarrow> request \<Rightarrow> error + session" where
  "sendRequest s r =
     (case refuses s r of Some e \<Rightarrow> Inl e | None \<Rightarrow> Inr (s\<lparr>sent := sent s @ [r]\<rparr>))"

definition nextEvent :: "session \<Rightarrow> (error + event) \<times> session" where
  "nextEvent s = (incoming s (cursor s), s\<lparr>cursor := Suc (cursor s)\<rparr>)"

text \<open>
  The polling loop of \<open>bdp\<close>, \<open>bdh\<close> and \<open>bsrch\<close>:
  \<^verbatim>\<open>
  while True:
      event = self.session.nextEvent()
      if event.eventType() == blpapi.event.Event.RESPONSE:
          break
  \<close>
  It may run forever: \<open>None\<close> is the loop that never leaves.
\<close>

partial_function (option) await_response :: "session \<Rightarrow> ((error + event) \<times> session) option" where
  "await_response s =
     (case incoming s (cursor s) of
        Inl e \<Rightarrow> Some (Inl e, s\<lparr>cursor := Suc (cursor s)\<rparr>)
      | Inr ev \<Rightarrow>
          if eventType ev = RESPONSE then Some (Inr ev, s\<lparr>cursor := Suc (cursor s)\<rparr>)
          else await_response (s\<lparr>cursor := Suc (cursor s)\<rparr>))"

declare await_response.simps [code]

section \<open>The pandas objects the wrapper builds\<close>

text \<open>
  A frame holds its row labels, its column labels and one list of cells per column.
  \<open>pandas.DataFrame(index=idx, columns=cols)\<close> is filled with the missing-data marker.
\<close>

definition DataFrame :: "label list \<Rightarrow> label list \<Rightarrow> frame" where
  "DataFrame idx cols =
     \<lparr>index = idx, columns = cols, cells = map (\<lambda>c. replicate (length idx) NaN) cols\<rparr>"

text \<open>
  \<open>df[c] = vals\<close>: every column labelled \<open>c\<close> takes the values, a new column is added
  when there is none, and a list of the wrong length is a \<open>ValueError\<close>.
\<close>

definition set_column :: "frame \<Rightarrow> label \<Rightarrow> cell list \<Rightarrow> error + frame" where
  "set_column df c vals =
     (if length vals \<noteq> length (index df) then Inl ValueError
      else if c \<in> set (columns df)
        then Inr (df\<lparr>cells := map2 (\<lambda>n old. if n = c then vals else old) (columns df) (cells df)\<rparr>)
        else Inr (df\<lparr>columns := columns df @ [c], cells := cells df @ [vals]\<rparr>))"

text \<open>\<open>df.replace(a, b, inplace=True)\<close>\<close>

definition replace_cells :: "cell \<Rightarrow> cell \<Rightarrow> frame \<Rightarrow> frame" where
  "replace_cells a b df = df\<lparr>cells := map (map (\<lambda>c. if c = a then b else c)) (cells df)\<rparr>"

text \<open>\<open>df.index = pandas.to_datetime(df.index)\<close>\<close>

definition to_datetime_index :: "frame \<Rightarrow> frame" where
  "to_datetime_index df = df\<lparr>index := map Stamp (index df)\<rparr>"

text \<open>
  \<open>df[keys]\<close> with a list of labels: for each key in turn, every column that carries it;
  a key that labels no column is a \<open>KeyError\<close>.
\<close>

definition select_columns :: "frame \<Rightarrow> label list \<Rightarrow> error + frame" where
  "select_columns df keys =
     (if set keys \<subseteq> set (columns df)
      then (let pos = concat (map (\<lambda>k. filter (\<lambda>j. columns df ! j = k) [0..<length (columns df)]) keys)
            in Inr \<lparr>index = index df, columns = map (\<lambda>j. columns df ! j) pos,
                     cells = map (\<lambda>j. cells df ! j) pos\<rparr>)
      else Inl (KeyError ''columns''))"

text \<open>\<open>df.values.tolist()\<close>: the rows, each a list of the cells in column order.\<close>

definition values_tolist :: "frame \<Rightarrow> cell list list" where
  "values_tolist df = map (\<lambda>i. map (\<lambda>col. col ! i) (cells df)) [0..<length (index df)]"

text \<open>\<open>xs[-1]\<close>\<close>

definition last_item :: "'a list \<Rightarrow> error + 'a" where
  "last_item xs = (if xs = [] then Inl IndexError else Inr (last xs))"

text \<open>
  \<open>pandas.DataFrame(data)\<close> of a list of strings: one column labelled \<open>0\<close>, rows
  numbered from \<open>0\<close>; of the empty list, the empty frame.
\<close>

definition DataFrame_of_list :: "string list \<Rightarrow> frame" where
  "DataFrame_of_list xs =
     (if xs = [] then \<lparr>index = [], columns = [], cells = []\<rparr>
      else \<lparr>index = map Pos [0..<length xs], columns = [Pos 0], cells = [map Txt xs]\<rparr>)"

section \<open>BLP2: the synchronous client\<close>

text \<open>
  What a method of either client can change: the session and what has been printed.
  The two services are opened in \<open>__init__\<close>; a request records the service that made it.
  The correlation id that \<open>sendRequest\<close> returns is bound to a local name and never read.
\<close>

record client =
  session :: session
  stdout :: "string list"

definition refDataSvc :: string where "refDataSvc = ''//BLP/refdata''"
definition refExrSvc :: string where "refExrSvc = ''//BLP/exrsvc''"

text \<open>
  Lines 58 to 63, 86 to 91 and 120 to 125: \<open>sendRequest\<close>, then the polling loop.
\<close>

definition request_response :: "session \<Rightarrow> request \<Rightarrow> ((error + event) \<times> session) option" where
  "request_response s r =
     (case sendRequest s r of Inl e \<Rightarrow> Some (Inl e, s) | Inr s1 \<Rightarrow> await_response s1)"

subsection \<open>bdp\<close>

definition bdp_request :: "string \<Rightarrow> string \<Rightarrow> string \<Rightarrow> string \<Rightarrow> string \<Rightarrow> string \<Rightarrow> request" where
  "bdp_request strSecurity strData strOverrideField strOverrideValue strOverrideField2 strOverrideValue2 =
     (let request = createRequest refDataSvc ''ReferenceDataRequest'';
          request = append_security strSecurity request;
          request = append_field strData request;
          request = (if strOverrideField \<noteq> '''' then
                       setElement ''value'' (PyStr strOverrideValue)
                         (setElement ''fieldId'' (PyStr strOverrideField) (appendElement request))
                     else request);
          request = (if strOverrideField2 \<noteq> '''' then
                       setElement ''value'' (PyStr strOverrideValue2)
                         (setElement ''fieldId'' (PyStr strOverrideField2) (appendElement request))
                     else request)
      in request)"

text \<open>
  Line 65, the expression inside \<open>try\<close>:
  \<^verbatim>\<open>
  blpapi.event.MessageIterator(event).next().getElement(SECURITY_DATA)
      .getValueAsElement(0).getElement(FIELD_DATA).getElementAsString(strData)
  \<close>
\<close>

definition bdp_value :: "event \<Rightarrow> string \<Rightarrow> error + string" where
  "bdp_value ev strData =
     and_then (first_message ev) (\<lambda>msg.
     and_then (getElement msg SECURITY_DATA) (\<lambda>sd.
     and_then (getValueAsElement sd 0) (\<lambda>s0.
     and_then (getElement s0 FIELD_DATA) (\<lambda>fd.
       getElementAsString fd strData))))"

definition bdp ::
  "client \<Rightarrow> string \<Rightarrow> string \<Rightarrow> string \<Rightarrow> string \<Rightarrow> string \<Rightarrow> string
     \<Rightarrow> ((error + pyval) \<times> client) option" where
  "bdp self strSecurity strData strOverrideField strOverrideValue strOverrideField2 strOverrideValue2 =
     (case request_response (session self)
             (bdp_request strSecurity strData strOverrideField strOverrideValue
                strOverrideField2 strOverrideValue2) of
        None \<Rightarrow> None
      | Some (Inl e, s) \<Rightarrow> Some (Inl e, self\<lparr>session := s\<rparr>)
      | Some (Inr ev, s) \<Rightarrow>
          (case bdp_value ev strData of
             Inr output \<Rightarrow>
               Some (Inr (PyStr (if output = ''#N/A'' then ''None'' else output)),
                     self\<lparr>session := s\<rparr>)
           | Inl e \<Rightarrow>
               Some (Inr (PyStr ''Error with api data field, i.g PX_LAST''),
                     self\<lparr>session := s,
                          stdout := stdout self @ [''error with '' @ strSecurity @ '' '' @ strData]\<rparr>)))"

subsection \<open>bdh and bdhOHLC\<close>

definition bdh_request :: "string \<Rightarrow> string list \<Rightarrow> date \<Rightarrow> date \<Rightarrow> pyval \<Rightarrow> pyval \<Rightarrow> request" where
  "bdh_request strSecurity strData startdate enddate adjustmentSplit periodicity =
     (let request = createRequest refDataSvc ''HistoricalDataRequest'';
          request = append_security strSecurity request;
          request = foldl (\<lambda>r strD. append_field strD r) request strData;
          request = set_elem ''startDate'' (PyStr (strftime_Ymd startdate)) request;
          request = set_elem ''endDate'' (PyStr (strftime_Ymd enddate)) request;
          request = set_elem ''adjustmentSplit''
                      (PyStr (if truthy adjustmentSplit then ''TRUE'' else ''FALSE'')) request;
          request = set_elem ''periodicitySelection'' periodicity request
      in request)"

text \<open>
  Lines 98 and 99:
  \<^verbatim>\<open>
  for strD in strData:
      output[strD] = [x.getElementAsFloat(strD) for x in fieldDataList]
  \<close>
\<close>

fun fill_columns :: "element list \<Rightarrow> string list \<Rightarrow> frame \<Rightarrow> error + frame" where
  "fill_columns fieldDataList [] output = Inr output"
| "fill_columns fieldDataList (strD # rest) output =
     and_then (traverse (\<lambda>x. getElementAsFloat x strD) fieldDataList) (\<lambda>vals.
     and_then (set_column output (Key strD) (map Num vals)) (\<lambda>output'.
       fill_columns fieldDataList rest output'))"

text \<open>Lines 93 and 94: the rows of the response.\<close>

definition bdh_rows :: "event \<Rightarrow> error + element list" where
  "bdh_rows ev =
     and_then (first_message ev) (\<lambda>msg.
     and_then (getElement msg SECURITY_DATA) (\<lambda>sd.
     and_then (getElement sd FIELD_DATA) (\<lambda>fieldDataArray.
       traverse (getValueAsElement fieldDataArray) [0..<numValues fieldDataArray])))"

text \<open>Lines 93 to 102: the table \<open>output\<close>.\<close>

definition bdh_output :: "event \<Rightarrow> string list \<Rightarrow> error + frame" where
  "bdh_output ev strData =
     and_then (bdh_rows ev) (\<lambda>fieldDataList.
     and_then (traverse (\<lambda>x. getElementAsDatetime x DATE) fieldDataList) (\<lambda>outDates.
     and_then (fill_columns fieldDataList strData (DataFrame (map Day outDates) (map Key strData)))
       (\<lambda>output.
         Inr (to_datetime_index (replace_cells (Txt ''#N/A History'') NaN output)))))"

text \<open>Lines 104 to 110: what is returned.\<close>

definition bdh_result :: "frame \<Rightarrow> string list \<Rightarrow> pyval \<Rightarrow> error + pyval" where
  "bdh_result output strData singleFrame =
     (if eq_True singleFrame then
        and_then (select_columns output (map Key strData)) (\<lambda>sel.
        and_then (last_item (values_tolist sel)) (\<lambda>lastPrice.
          Inr (PyList (map PyCell lastPrice))))
      else Inr (PyFrame output))"

definition bdh ::
  "client \<Rightarrow> string \<Rightarrow> strarg \<Rightarrow> date \<Rightarrow> date \<Rightarrow> pyval \<Rightarrow> pyval \<Rightarrow> pyval
     \<Rightarrow> ((error + pyval) \<times> client) option" where
  "bdh self strSecurity strData startdate enddate adjustmentSplit periodicity singleFrame =
     (case request_response (session self)
             (bdh_request strSecurity (as_list strData) startdate enddate adjustmentSplit periodicity) of
        None \<Rightarrow> None
      | Some (Inl e, s) \<Rightarrow> Some (Inl e, self\<lparr>session := s\<rparr>)
      | Some (Inr ev, s) \<Rightarrow>
          Some (and_then (bdh_output ev (as_list strData)) (\<lambda>output.
                  bdh_result output (as_list strData) singleFrame),
                self\<lparr>session := s\<rparr>))"

text \<open>
  \<^verbatim>\<open>
  def bdhOHLC(self, strSecurity=..., startdate=..., enddate=..., periodicity='DAILY'):
      return self.bdh(strSecurity, ['PX_OPEN', 'PX_HIGH', 'PX_LOW', 'PX_LAST'],
                      startdate, enddate, periodicity)
  \<close>
  The fifth positional parameter of \<open>bdh\<close> is \<open>adjustmentSplit\<close>; \<open>periodicity\<close> and
  \<open>singleFrame\<close> keep their defaults.
\<close>

definition bdhOHLC ::
  "client \<Rightarrow> string \<Rightarrow> date \<Rightarrow> date \<Rightarrow> pyval \<Rightarrow> ((error + pyval) \<times> client) option" where
  "bdhOHLC self strSecurity startdate enddate periodicity =
     bdh self strSecurity (Many [''PX_OPEN'', ''PX_HIGH'', ''PX_LOW'', ''PX_LAST''])
       startdate enddate periodicity (PyStr ''DAILY'') (PyBool False)"

subsection \<open>bsrch\<close>

definition bsrch_request :: "string \<Rightarrow> request" where
  "bsrch_request domain = set_elem ''Domain'' (PyStr domain) (createRequest refExrSvc ''ExcelGetGridRequest'')"

text \<open>
  Lines 126 to 130:
  \<^verbatim>\<open>
  for msg in event:
      for v in msg.getElement("DataRecords").values():
          for f in v.getElement("DataFields").values():
              data.append(f.getElementAsString("StringValue"))
  \<close>
\<close>

definition bsrch_data :: "event \<Rightarrow> error + string list" where
  "bsrch_data ev =
     and_then
       (traverse (\<lambda>msg.
          and_then (getElement msg ''DataRecords'') (\<lambda>recs.
          and_then
            (traverse (\<lambda>v.
               and_then (getElement v ''DataFields'') (\<lambda>fs.
                 traverse (\<lambda>f. getElementAsString f ''StringValue'') (values_of fs)))
               (values_of recs))
            (\<lambda>per_record. Inr (concat per_record))))
          (messages ev))
       (\<lambda>per_message. Inr (concat per_message))"

definition bsrch :: "client \<Rightarrow> string \<Rightarrow> ((error + pyval) \<times> client) option" where
  "bsrch self domain =
     (case request_response (session self) (bsrch_request domain) of
        None \<Rightarrow> None
      | Some (Inl e, s) \<Rightarrow> Some (Inl e, self\<lparr>session := s\<rparr>)
      | Some (Inr ev, s) \<Rightarrow>
          Some (and_then (bsrch_data ev) (\<lambda>data. Inr (PyFrame (DataFrame_of_list data))),
                self\<lparr>session := s\<rparr>))"

section \<open>The observer list of BLPTS\<close>

text \<open>
  \<^verbatim>\<open>
  def register(self, observer):
      if not observer in self.observers:
          self.observers.append(observer)
  def unregister(self, observer):
      if observer in self.observers:
          self.observers.remove(observer)
  def unregisterAll(self):
      if self.observers:
          del self.observers[:]
  \<close>
\<close>

definition register :: "'o list \<Rightarrow> 'o \<Rightarrow> 'o list" where
  "register obs ob = (if \<not> ob \<in> set obs then obs @ [ob] else obs)"

definition unregister :: "'o list \<Rightarrow> 'o \<Rightarrow> 'o list" where
  "unregister obs ob = (if ob \<in> set obs then remove1 ob obs else obs)"

definition unregisterAll :: "'o list \<Rightarrow> 'o list" where
  "unregisterAll obs = (if obs \<noteq> [] then [] else obs)"

datatype 'o call = Register 'o | Unregister 'o | UnregisterAll

fun perform :: "'o list \<Rightarrow> 'o call \<Rightarrow> 'o list" where
  "perform obs (Register ob) = register obs ob"
| "perform obs (Unregister ob) = unregister obs ob"
| "perform obs UnregisterAll = unregisterAll obs"

text \<open>The list after a sequence of calls on a fresh BLPTS (\<open>self.observers = []\<close>).\<close>

definition observers_after :: "'o call list \<Rightarrow> 'o list" where
  "observers_after cs = foldl perform [] cs"

section \<open>BLPTS: the observer client\<close>

text \<open>
  What \<open>updateObservers(security=..., field=..., data=...)\<close> passes on. The frame is
  the value of \<open>data\<close> at the moment of the call.
\<close>

record notification =
  security :: string
  field :: string
  data :: frame

text \<open>
  The attributes of a BLPTS; those that only \<open>fillRequest\<close> assigns are unset
  (\<open>None\<close>) before. \<open>notified\<close> lists the calls of \<open>update\<close> made so far, oldest
  first, each with the observer called and what it was passed. \<open>self.requestID\<close>, the
  correlation id that \<open>sendRequest\<close> returns, is assigned and never read; it is left out.
\<close>

record 'o blpts = client +
  observers :: "'o list"
  kwargs :: "(string \<times> pyval) list"
  request :: "request option"
  startDate :: "pyval option"
  endDate :: "pyval option"
  periodicity :: "pyval option"
  self_output :: "frame option"
  self_securities :: "string list option"
  self_fields :: "string list option"
  notified :: "('o \<times> notification) list"

text \<open>
  \<^verbatim>\<open>
  def updateObservers(self, *args, **kwargs):
      for observer in self.observers:
          observer.update(*args, **kwargs)
  \<close>
  \<open>update\<close> is the observer's own code: \<open>upd ob x\<close> is \<open>None\<close> when the call returns
  and the exception when it raises. The loop has no handler, so an exception ends it.
  An \<open>update\<close> is taken not to register or unregister observers while the loop runs.
\<close>

fun updateObservers ::
  "('o \<Rightarrow> 'n \<Rightarrow> error option) \<Rightarrow> 'o list \<Rightarrow> 'n \<Rightarrow> ('o \<times> 'n) list \<Rightarrow> error option \<times> ('o \<times> 'n) list" where
  "updateObservers upd [] x calls = (None, calls)"
| "updateObservers upd (ob # rest) x calls =
     (case upd ob x of
        Some e \<Rightarrow> (Some e, calls @ [(ob, x)])
      | None \<Rightarrow> updateObservers upd rest x (calls @ [(ob, x)]))"

definition notify ::
  "('o \<Rightarrow> notification \<Rightarrow> error option) \<Rightarrow> notification \<Rightarrow> 'o blpts \<Rightarrow> error option \<times> 'o blpts" where
  "notify upd x self =
     (case updateObservers upd (observers self) x (notified self) of
        (r, calls) \<Rightarrow> (r, self\<lparr>notified := calls\<rparr>))"

text \<open>A \<open>for\<close> loop whose body changes the state and can raise.\<close>

fun for_each :: "('a \<Rightarrow> 's \<Rightarrow> error option \<times> 's) \<Rightarrow> 'a list \<Rightarrow> 's \<Rightarrow> error option \<times> 's" where
  "for_each body [] s = (None, s)"
| "for_each body (x # xs) s =
     (case body x s of
        (Some e, s') \<Rightarrow> (Some e, s')
      | (None, s') \<Rightarrow> for_each body xs s')"

text \<open>\<open>d.strftime('%Y%m%d')\<close> on a keyword argument, which need not be a date.\<close>

definition strftime :: "pyval \<Rightarrow> error + string" where
  "strftime v = (case v of PyDate d \<Rightarrow> Inr (strftime_Ymd d) | _ \<Rightarrow> Inl (AttributeError ''strftime''))"

text \<open>\<open>self.request.set(k, v)\<close> and the like act on the request object in place.\<close>

definition on_request :: "(request \<Rightarrow> request) \<Rightarrow> 'o blpts \<Rightarrow> 'o blpts" where
  "on_request f self = self\<lparr>request := map_option f (request self)\<rparr>"

text \<open>Lines 190 to 202 of \<open>fillRequest\<close>: the branch of a historical request.\<close>

definition fill_historical :: "'o blpts \<Rightarrow> (string \<times> pyval) list \<Rightarrow> error option \<times> 'o blpts" where
  "fill_historical self kw =
     (let self = self\<lparr>request := Some (createRequest refDataSvc ''HistoricalDataRequest''),
                      startDate := map_of kw ''startDate''\<rparr>
      in case map_of kw ''endDate'' of
           None \<Rightarrow> (Some (KeyError ''endDate''), self)
         | Some ed \<Rightarrow>
             (let self = self\<lparr>endDate := Some ed\<rparr>;
                  p = (case map_of kw ''periodicity'' of Some p \<Rightarrow> p | None \<Rightarrow> PyStr ''DAILY'');
                  self = self\<lparr>periodicity := Some p\<rparr>
              in case startDate self of
                   None \<Rightarrow> (Some (KeyError ''startDate''), self)
                 | Some sd \<Rightarrow>
                     (case strftime sd of
                        Inl e \<Rightarrow> (Some e, self)
                      | Inr s1 \<Rightarrow>
                          (let self = on_request (set_elem ''startDate'' (PyStr s1)) self
                           in case strftime ed of
                                Inl e \<Rightarrow> (Some e, self)
                              | Inr s2 \<Rightarrow>
                                  (None,
                                   on_request (set_elem ''periodicitySelection'' p)
                                     (on_request (set_elem ''endDate'' (PyStr s2)) self))))))"

text \<open>Lines 205 to 211 of \<open>fillRequest\<close>: the branch of a reference request.\<close>

definition fill_reference ::
  "'o blpts \<Rightarrow> string list \<Rightarrow> string list \<Rightarrow> (string \<times> pyval) list \<Rightarrow> error option \<times> 'o blpts" where
  "fill_reference self secs flds kw =
     (let self = self\<lparr>request := Some (createRequest refDataSvc ''ReferenceDataRequest''),
                      self_output := Some (DataFrame (map Key secs) (map Key flds))\<rparr>
      in case map_of kw ''strOverrideField'' of
           None \<Rightarrow> (None, self)
         | Some f \<Rightarrow>
             (let self = on_request (setElement ''fieldId'' f) (on_request appendElement self)
              in case map_of kw ''strOverrideValue'' of
                   None \<Rightarrow> (Some (KeyError ''strOverrideValue''), self)
                 | Some v \<Rightarrow> (None, on_request (setElement ''value'' v) self)))"

definition fillRequest ::
  "'o blpts \<Rightarrow> strarg \<Rightarrow> strarg \<Rightarrow> (string \<times> pyval) list \<Rightarrow> error option \<times> 'o blpts" where
  "fillRequest self securities_arg fields_arg kw =
     (let self = self\<lparr>kwargs := kw\<rparr>;
          secs = as_list securities_arg;
          flds = as_list fields_arg
      in case (if map_of kw ''startDate'' \<noteq> None then fill_historical self kw
               else fill_reference self secs flds kw) of
           (Some e, self) \<Rightarrow> (Some e, self)
         | (None, self) \<Rightarrow>
             (let self = self\<lparr>self_securities := Some secs, self_fields := Some flds\<rparr>;
                  self = on_request (\<lambda>r. foldl (\<lambda>r s. append_security s r) r secs) self;
                  self = on_request (\<lambda>r. foldl (\<lambda>r f. append_field f r) r flds) self
              in (None, self)))"

text \<open>
  Lines 243 to 249, the parsing of a historical response; rows, security name and the
  empty table \<open>outDF\<close>.
\<close>

definition historical_table ::
  "event \<Rightarrow> string list option \<Rightarrow> error + (string \<times> element list \<times> frame)" where
  "historical_table ev flds =
     and_then (first_message ev) (\<lambda>msg.
     and_then (getElement msg SECURITY_DATA) (\<lambda>out.
     and_then (and_then (getElement out SECURITY) getValueAsString) (\<lambda>sec.
     and_then (getElement out FIELD_DATA) (\<lambda>fieldDataArray.
     and_then (traverse (getValueAsElement fieldDataArray) [0..<numValues fieldDataArray])
       (\<lambda>fieldDataList.
     and_then (traverse (\<lambda>x. and_then (getElement x DATE) getValueAsString) fieldDataList)
       (\<lambda>dates.
         case flds of
           None \<Rightarrow> Inl (AttributeError ''fields'')
         | Some fs \<Rightarrow>
             Inr (sec, fieldDataList, to_datetime_index (DataFrame (map Key dates) (map Key fs)))))))))"

text \<open>
  Lines 252 to 257: the column of one field.
  \<^verbatim>\<open>
  for row in fieldDataList:
      if row.hasElement(field):
          data.append(row.getElement(field).getValueAsFloat())
      else:
          data.append(pandas.np.nan)
  \<close>
\<close>

definition field_column :: "element list \<Rightarrow> string \<Rightarrow> error + cell list" where
  "field_column fieldDataList fld =
     traverse (\<lambda>row.
       if hasElement row fld
       then and_then (and_then (getElement row fld) getValueAsFloat) (\<lambda>x. Inr (Num x))
       else Inr NaN) fieldDataList"

text \<open>
  Lines 251 to 260: the loop over the fields. The state carries the client and the table
  \<open>outDF\<close>.
\<close>

definition historical_field ::
  "('o \<Rightarrow> notification \<Rightarrow> error option) \<Rightarrow> string \<Rightarrow> element list \<Rightarrow> string
     \<Rightarrow> 'o blpts \<times> frame \<Rightarrow> error option \<times> ('o blpts \<times> frame)" where
  "historical_field upd sec fieldDataList fld st =
     (case st of (self, outDF) \<Rightarrow>
        (case and_then (field_column fieldDataList fld) (set_column outDF (Key fld)) of
           Inl e \<Rightarrow> (Some e, (self, outDF))
         | Inr outDF' \<Rightarrow>
             (case notify upd \<lparr>security = sec, field = fld, data = outDF'\<rparr> self of
                (r, self') \<Rightarrow> (r, (self', outDF')))))"

text \<open>Lines 243 to 262: one pass of the loop over \<open>i\<close>, for a historical request.\<close>

definition historical_entry ::
  "('o \<Rightarrow> notification \<Rightarrow> error option) \<Rightarrow> event \<Rightarrow> 'o blpts \<Rightarrow> error option \<times> 'o blpts" where
  "historical_entry upd ev self =
     (case historical_table ev (self_fields self) of
        Inl e \<Rightarrow> (Some e, self)
      | Inr (sec, fieldDataList, outDF) \<Rightarrow>
          (case for_each (historical_field upd sec fieldDataList)
                  (case self_fields self of None \<Rightarrow> [] | Some fs \<Rightarrow> fs) (self, outDF) of
             (Some e, (self', outDF')) \<Rightarrow> (Some e, self')
           | (None, (self', outDF')) \<Rightarrow>
               notify upd \<lparr>security = sec, field = ''ALL'', data = outDF'\<rparr> self'))"

text \<open>
  Lines 266 to 279: one pass of the loop over \<open>i\<close>, for a reference request.
  \<^verbatim>\<open>
  output   = ...next().getElement(SECURITY_DATA).getValueAsElement(i)
  n_elmts  = output.getElement(FIELD_DATA).numElements()
  security = output.getElement(SECURITY).getValueAsString()
  for j in range(0, n_elmts):
      data     = output.getElement(FIELD_DATA).getElement(j)
      field    = str(data.name())
      outData  = _dict_from_element(data)
      ...
  if n_elmts>0:
      ...
  else:
      print('Empty response received for ' + security)
  \<close>
  The module neither defines nor imports \<open>_dict_from_element\<close>: looking the name up
  raises \<open>NameError\<close> in the first pass of the loop over \<open>j\<close>, so the rest of the loop
  body and the branch \<open>n_elmts>0\<close> are never reached.
\<close>

definition reference_entry :: "event \<Rightarrow> nat \<Rightarrow> 'o blpts \<Rightarrow> error option \<times> 'o blpts" where
  "reference_entry ev i self =
     (case
        and_then (first_message ev) (\<lambda>msg.
        and_then (getElement msg SECURITY_DATA) (\<lambda>sd.
        and_then (getValueAsElement sd i) (\<lambda>out.
        and_then (getElement out FIELD_DATA) (\<lambda>fd.
        and_then (and_then (getElement out SECURITY) getValueAsString) (\<lambda>sec.
          if 0 < numElements fd
          then and_then (getElementAt fd 0) (\<lambda>data. Inl (NameError ''_dict_from_element''))
          else Inr sec))))) of
        Inl e \<Rightarrow> (Some e, self)
      | Inr sec \<Rightarrow> (None, self\<lparr>stdout := stdout self @ [''Empty response received for '' @ sec]\<rparr>))"

text \<open>Lines 237 to 279: what is done with a response or a partial response.\<close>

definition dispatch ::
  "('o \<Rightarrow> notification \<Rightarrow> error option) \<Rightarrow> event \<Rightarrow> 'o blpts \<Rightarrow> error option \<times> 'o blpts" where
  "dispatch upd ev self =
     (case and_then (first_message ev) (\<lambda>msg. getElement msg SECURITY_DATA) of
        Inl e \<Rightarrow> (Some e, self)
      | Inr sd \<Rightarrow>
          for_each (\<lambda>i self.
                      if map_of (kwargs self) ''startDate'' \<noteq> None
                      then historical_entry upd ev self
                      else reference_entry ev i self)
            [0..<numValues sd] self)"

text \<open>
  The loop of \<open>get\<close>, lines 234 to 282. It leaves by \<open>break\<close> after a \<open>RESPONSE\<close>
  event; the function then ends without a \<open>return\<close>, which gives \<open>None\<close>.
\<close>

partial_function (option) get_events ::
  "('o \<Rightarrow> notification \<Rightarrow> error option) \<Rightarrow> 'o blpts \<Rightarrow> ((error + pyval) \<times> 'o blpts) option" where
  "get_events upd self =
     (case nextEvent (session self) of
        (Inl e, s) \<Rightarrow> Some (Inl e, self\<lparr>session := s\<rparr>)
      | (Inr ev, s) \<Rightarrow>
          (if eventType ev = RESPONSE \<or> eventType ev = PARTIAL_RESPONSE
           then (case dispatch upd ev (self\<lparr>session := s\<rparr>) of
                   (Some e, self') \<Rightarrow> Some (Inl e, self')
                 | (None, self') \<Rightarrow>
                     if eventType ev = RESPONSE then Some (Inr PyNone, self')
                     else get_events upd self')
           else get_events upd (self\<lparr>session := s\<rparr>)))"

declare get_events.simps [code]

text \<open>Lines 229 to 232: the request is filled when arguments are given, then sent.\<close>

definition get_send :: "'o blpts \<Rightarrow> strarg \<Rightarrow> strarg \<Rightarrow> (string \<times> pyval) list \<Rightarrow> error option \<times> 'o blpts" where
  "get_send self newSecurities newFields kw =
     (case (if 0 < len newSecurities \<or> 0 < len newFields
            then fillRequest self newSecurities newFields kw else (None, self)) of
        (Some e, self) \<Rightarrow> (Some e, self)
      | (None, self) \<Rightarrow>
          (case request self of
             None \<Rightarrow> (Some (AttributeError ''request''), self)
           | Some r \<Rightarrow>
               (case sendRequest (session self) r of
                  Inl e \<Rightarrow> (Some e, self)
                | Inr s \<Rightarrow> (None, self\<lparr>session := s\<rparr>))))"

definition get ::
  "('o \<Rightarrow> notification \<Rightarrow> error option) \<Rightarrow> 'o blpts \<Rightarrow> strarg \<Rightarrow> strarg \<Rightarrow> (string \<times> pyval) list
     \<Rightarrow> ((error + pyval) \<times> 'o blpts) option" where
  "get upd self newSecurities newFields kw =
     (case get_send self newSecurities newFields kw of
        (Some e, self') \<Rightarrow> Some (Inl e, self')
      | (None, self') \<Rightarrow> get_events upd self')"

text \<open>
  \<open>__init__\<close>, lines 164 to 173. The session is the one \<open>blpapi.Session()\<close> gives once
  started, with the reference data service open.
\<close>

definition BLPTS_init ::
  "session \<Rightarrow> strarg \<Rightarrow> strarg \<Rightarrow> (string \<times> pyval) list \<Rightarrow> error option \<times> 'o blpts" where
  "BLPTS_init s securities_arg fields_arg kw =
     (let self = \<lparr>session = s, stdout = [], observers = [], kwargs = kw, request = None,
                  startDate = None, endDate = None, periodicity = None, self_output = None,
                  self_securities = None, self_fields = None, notified = []\<rparr>
      in if 0 < len securities_arg \<and> 0 < len fields_arg
         then fillRequest self securities_arg fields_arg kw
         else (None, self))"

section \<open>Notions used to state the properties\<close>

text \<open>What ends the polling loop of BLP2: a \<open>RESPONSE\<close> event, or an exception of \<open>nextEvent\<close>.\<close>

definition stops :: "error + event \<Rightarrow> bool" where
  "stops x = (case x of Inl e \<Rightarrow> True | Inr ev \<Rightarrow> eventType ev = RESPONSE)"

text \<open>
  What the reference branch of \<open>get\<close> reads of a response before it looks at any
  field (lines 237 and 266 to 268): for each entry of \<open>securityData\<close>, in order, the
  security name and the number of field-data elements.
\<close>

definition entry_fields :: "element \<Rightarrow> nat \<Rightarrow> error + (string \<times> nat)" where
  "entry_fields sd i =
     and_then (getValueAsElement sd i) (\<lambda>out.
     and_then (getElement out FIELD_DATA) (\<lambda>fd.
     and_then (and_then (getElement out SECURITY) getValueAsString) (\<lambda>sec.
       Inr (sec, numElements fd))))"

definition reference_entries :: "event \<Rightarrow> error + (string \<times> nat) list" where
  "reference_entries ev =
     and_then (and_then (first_message ev) (\<lambda>msg. getElement msg SECURITY_DATA)) (\<lambda>sd.
       traverse (entry_fields sd) [0..<numValues sd])"

text \<open>Two states of a BLPTS that differ at most in what was printed and who was notified.\<close>

definition only_told :: "'o blpts \<Rightarrow> 'o blpts \<Rightarrow> bool" where
  "only_told self self' =
     (self'\<lparr>stdout := [], notified := []\<rparr> = self\<lparr>stdout := [], notified := []\<rparr>)"

section \<open>Example sessions\<close>

text \<open>A session on which every call of \<open>nextEvent\<close> gives the same event.\<close>

definition always :: "event \<Rightarrow> nat \<Rightarrow> error + event" where
  "always ev k = Inr ev"

definition accepts_all :: "request \<Rightarrow> error option" where
  "accepts_all r = None"

definition line :: "event \<Rightarrow> session" where
  "line ev = \<lparr>incoming = always ev, cursor = 0, sent = [], refuses = accepts_all\<rparr>"

definition serving :: "event \<Rightarrow> client" where
  "serving ev = \<lparr>session = line ev, stdout = []\<rparr>"

text \<open>An observer whose \<open>update\<close> returns, and observers of which one raises.\<close>

definition returns :: "nat \<Rightarrow> 'n \<Rightarrow> error option" where
  "returns ob x = None"


definition reference_response :: event where
  "reference_response =
     \<lparr>eventType = RESPONSE,
      messages = [Seq ''ReferenceDataResponse''
        [Arr ''securityData''
          [Seq ''securityData''
            [Scalar ''security'' ''IBM US Equity'' None None,
             Seq ''fieldData'' [Scalar ''PX_LAST'' ''101.5'' (Some 101.5) None]]]]]\<rparr>"

definition history_response :: event where
  "history_response =
     \<lparr>eventType = RESPONSE,
      messages = [Seq ''HistoricalDataResponse''
        [Seq ''securityData''
          [Scalar ''security'' ''SPX Index'' None None,
           Arr ''fieldData''
             [Seq ''fieldData''
                [Scalar ''date'' ''2014-01-02'' None (Some (Date 2014 1 2)),
                 Scalar ''PX_LAST'' ''1831.98'' (Some 1831.98) None],
              Seq ''fieldData''
                [Scalar ''date'' ''2014-01-03'' None (Some (Date 2014 1 3)),
                 Scalar ''PX_LAST'' ''1831.37'' (Some 1831.37) None]]]]]\<rparr>"



definition partial_error :: event where
  "partial_error =
     \<lparr>eventType = PARTIAL_RESPONSE,
      messages = [Seq ''HistoricalDataResponse''
        [Seq ''responseError'' [Scalar ''message'' ''Invalid request'' None None]]]\<rparr>"

definition heartbeat :: event where
  "heartbeat = \<lparr>eventType = SESSION_STATUS, messages = []\<rparr>"

text \<open>
  \<open>BLPTS('SPX Index', 'PX_LAST', startDate=datetime.datetime(2014,1,1),
  endDate=datetime.datetime(2014,1,9))\<close> and \<open>BLPTS('IBM US Equity', 'PX_LAST')\<close>.
\<close>

definition history_watcher :: "event \<Rightarrow> nat blpts" where
  "history_watcher ev =
     snd (BLPTS_init (line ev) (One ''SPX Index'') (One ''PX_LAST'')
            [(''startDate'', PyDate (Date 2014 1 1)), (''endDate'', PyDate (Date 2014 1 9))])"

definition reference_watcher :: "event \<Rightarrow> nat blpts" where
  "reference_watcher ev = snd (BLPTS_init (line ev) (One ''IBM US Equity'') (One ''PX_LAST'') [])"

text \<open>The table the observers of \<open>history_watcher history_response\<close> are passed.\<close>

definition price_table :: frame where
  "price_table = \<lparr>index = [Stamp (Key ''2014-01-02''), Stamp (Key ''2014-01-03'')],
        columns = [Key ''PX_LAST''], cells = [[Num 1831.98, Num 1831.37]]\<rparr>"


text \<open>A historical response with the four fields of \<open>bdhOHLC\<close>.\<close>

definition ohlc_response :: event where
  "ohlc_response =
     \<lparr>eventType = RESPONSE,
      messages = [Seq ''HistoricalDataResponse''
        [Seq ''securityData''
          [Scalar ''security'' ''SPX Index'' None None,
           Arr ''fieldData''
             [Seq ''fieldData''
                [Scalar ''date'' ''2014-01-02'' None (Some (Date 2014 1 2)),
                 Scalar ''PX_OPEN'' ''1845.86'' (Some 1845.86) None,
                 Scalar ''PX_HIGH'' ''1845.86'' (Some 1845.86) None,
                 Scalar ''PX_LOW'' ''1827.74'' (Some 1827.74) None,
                 Scalar ''PX_LAST'' ''1831.98'' (Some 1831.98) None]]]]]\<rparr>"

section \<open>The observer list\<close>

lemma distinct_register: "distinct obs \<Longrightarrow> distinct (register obs ob)"
  by (simp add: register_def)

lemma distinct_unregister: "distinct obs \<Longrightarrow> distinct (unregister obs ob)"
  by (simp add: unregister_def)

lemma distinct_perform: "distinct obs \<Longrightarrow> distinct (perform obs c)"
  by (cases c) (simp_all add: distinct_register distinct_unregister unregisterAll_def)

lemma distinct_foldl_perform: "distinct obs \<Longrightarrow> distinct (foldl perform obs cs)"
  by (induction cs arbitrary: obs) (simp_all add: distinct_perform)

text \<open>
  C10. The observer list never holds an observer twice: it is free of duplicates after
  any sequence of \<open>register\<close>, \<open>unregister\<close> and \<open>unregisterAll\<close> on a fresh BLPTS, and
  each of the three keeps a duplicate-free list duplicate-free. Registering an observer
  that is in the list leaves the list as it is, so \<open>register\<close> is idempotent;
  \<open>unregister\<close> takes out the given observer and nothing else, and leaves the list as it
  is when the observer is absent; \<open>unregisterAll\<close> leaves the empty list.
\<close>

theorem observer_list_has_no_duplicates:
  "distinct (observers_after cs)
   \<and> (distinct obs \<longrightarrow>
        distinct (register obs ob) \<and> distinct (unregister obs ob) \<and> distinct (unregisterAll obs))
   \<and> (ob \<in> set obs \<longrightarrow> register obs ob = obs)
   \<and> register (register obs ob) ob = register obs ob
   \<and> (distinct obs \<longrightarrow>
        unregister obs ob = removeAll ob obs \<and> set (unregister obs ob) = set obs - {ob})
   \<and> (ob \<notin> set obs \<longrightarrow> unregister obs ob = obs)
   \<and> unregisterAll obs = []"
proof -
  have "distinct (observers_after cs)"
    unfolding observers_after_def by (rule distinct_foldl_perform) simp
  moreover have "distinct obs \<longrightarrow>
        distinct (register obs ob) \<and> distinct (unregister obs ob) \<and> distinct (unregisterAll obs)"
    by (simp add: distinct_register distinct_unregister unregisterAll_def)
  moreover have "ob \<in> set obs \<longrightarrow> register obs ob = obs"
    by (simp add: register_def)
  moreover have "register (register obs ob) ob = register obs ob"
    by (simp add: register_def)
  moreover have "distinct obs \<longrightarrow>
        unregister obs ob = removeAll ob obs \<and> set (unregister obs ob) = set obs - {ob}"
    by (auto simp add: unregister_def distinct_remove1_removeAll)
  moreover have "ob \<notin> set obs \<longrightarrow> unregister obs ob = obs"
    by (simp add: unregister_def)
  moreover have "unregisterAll obs = []"
    by (simp add: unregisterAll_def)
  ultimately show ?thesis by blast
qed

theorem observer_list_has_no_duplicates_witness:
  "distinct (observers_after [Register (1::nat), Register 2, Register 1, Unregister 3])
   \<and> distinct [1::nat, 2]
   \<and> (2::nat) \<in> set [1, 2] \<and> register [1::nat, 2] 2 = [1, 2]
   \<and> unregister [1::nat, 2] 2 = [1]
   \<and> (3::nat) \<notin> set [1, 2] \<and> unregister [1::nat, 2] 3 = [1, 2]
   \<and> unregisterAll [1::nat, 2] = []"
  using observer_list_has_no_duplicates
          [of "[Register (1::nat), Register 2, Register 1, Unregister 3]" "[1::nat, 2]" 2]
    observer_list_has_no_duplicates [of "[]" "[1::nat, 2]" 3]
  by (simp add: register_def unregister_def unregisterAll_def)

section \<open>Notifying the observers\<close>






section \<open>The polling loops\<close>

lemma await_response_step:
  "await_response s =
     (if stops (incoming s (cursor s)) then Some (incoming s (cursor s), s\<lparr>cursor := Suc (cursor s)\<rparr>)
      else await_response (s\<lparr>cursor := Suc (cursor s)\<rparr>))"
  by (subst await_response.simps) (simp add: stops_def split: sum.splits)

lemma await_response_reaches:
  "stops (incoming s (cursor s + n)) \<Longrightarrow> await_response s \<noteq> None"
proof (induction n arbitrary: s)
  case 0
  then show ?case by (subst await_response_step) simp
next
  case (Suc n)
  show ?case
  proof (cases "stops (incoming s (cursor s))")
    case True
    then show ?thesis by (subst await_response_step) simp
  next
    case False
    from Suc.prems have "stops (incoming (s\<lparr>cursor := Suc (cursor s)\<rparr>) (cursor (s\<lparr>cursor := Suc (cursor s)\<rparr>) + n))"
      by simp
    from Suc.IH [OF this] False show ?thesis
      by (subst await_response_step) simp
  qed
qed

lemma await_response_result:
  "await_response s = Some y \<Longrightarrow>
   \<exists>j \<ge> cursor s. stops (incoming s j) \<and> y = (incoming s j, s\<lparr>cursor := Suc j\<rparr>)"
proof (induction rule: await_response.raw_induct [rotated 1, consumes 1])
  case (1 f s y)
  show ?case
  proof (cases "stops (incoming s (cursor s))")
    case True
    with 1(2) have "y = (incoming s (cursor s), s\<lparr>cursor := Suc (cursor s)\<rparr>)"
      by (auto simp add: stops_def split: sum.splits if_splits)
    with True show ?thesis by blast
  next
    case False
    with 1(2) have "f (s\<lparr>cursor := Suc (cursor s)\<rparr>) = Some y"
      by (auto simp add: stops_def split: sum.splits if_splits)
    from 1(1) [OF this] obtain j where
      "j \<ge> Suc (cursor s)" "stops (incoming s j)" "y = (incoming s j, s\<lparr>cursor := Suc j\<rparr>)"
      by auto
    then show ?thesis
      by (intro exI [of _ j]) simp
  qed
qed

lemma await_response_iff:
  "await_response s \<noteq> None \<longleftrightarrow> (\<exists>j \<ge> cursor s. stops (incoming s j))"
proof
  assume "await_response s \<noteq> None"
  then obtain y where "await_response s = Some y" by blast
  from await_response_result [OF this] show "\<exists>j \<ge> cursor s. stops (incoming s j)" by blast
next
  assume "\<exists>j \<ge> cursor s. stops (incoming s j)"
  then obtain j where "j \<ge> cursor s" "stops (incoming s j)" by blast
  then have "stops (incoming s (cursor s + (j - cursor s)))" by simp
  then show "await_response s \<noteq> None" by (rule await_response_reaches)
qed

section \<open>What handling a response can change\<close>

lemma only_told_refl: "only_told self self"
  by (simp add: only_told_def)

lemma only_told_trans: "only_told a b \<Longrightarrow> only_told b c \<Longrightarrow> only_told a c"
  by (simp add: only_told_def)

lemma for_each_rel:
  assumes step: "\<And>x s r s'. body x s = (r, s') \<Longrightarrow> R s s'"
    and refl: "\<And>s. R s s"
    and trans: "\<And>a b c. R a b \<Longrightarrow> R b c \<Longrightarrow> R a c"
  shows "for_each body xs s = (r, s') \<Longrightarrow> R s s'"
proof (induction xs arbitrary: s)
  case Nil
  then show ?case by (simp add: refl)
next
  case (Cons x xs)
  obtain r1 s1 where b: "body x s = (r1, s1)" by (cases "body x s")
  show ?case
  proof (cases r1)
    case None
    with Cons.prems b have "for_each body xs s1 = (r, s')" by simp
    from trans [OF step [OF b] Cons.IH [OF this]] show ?thesis .
  next
    case (Some e)
    with Cons.prems b have "s' = s1" by simp
    with step [OF b] show ?thesis by simp
  qed
qed

lemma notify_only_told: "notify upd x self = (r, self') \<Longrightarrow> only_told self self'"
  by (auto simp add: notify_def only_told_def split: prod.splits)

lemma reference_entry_only_told: "reference_entry ev i self = (r, self') \<Longrightarrow> only_told self self'"
  by (auto simp add: reference_entry_def only_told_def split: sum.splits)

lemma historical_field_only_told:
  assumes "historical_field upd sec rows fld st = (r, st')"
  shows "only_told (fst st) (fst st')"
proof -
  obtain self outDF where st: "st = (self, outDF)" by (cases st)
  show ?thesis
  proof (cases "and_then (field_column rows fld) (set_column outDF (Key fld))")
    case (Inl e)
    with assms st show ?thesis by (auto simp add: historical_field_def only_told_refl)
  next
    case (Inr df)
    obtain r1 self1 where n: "notify upd \<lparr>security = sec, field = fld, data = df\<rparr> self = (r1, self1)"
      by (cases "notify upd \<lparr>security = sec, field = fld, data = df\<rparr> self")
    with assms st Inr have "st' = (self1, df)" by (simp add: historical_field_def)
    with notify_only_told [OF n] st show ?thesis by simp
  qed
qed

lemma historical_entry_only_told:
  assumes "historical_entry upd ev self = (r, self')"
  shows "only_told self self'"
proof (cases "historical_table ev (self_fields self)")
  case (Inl e)
  with assms show ?thesis by (simp add: historical_entry_def only_told_refl)
next
  case (Inr t)
  obtain sec rows outDF where t: "t = (sec, rows, outDF)" by (cases t)
  obtain r1 self1 df1 where
    loop: "for_each (historical_field upd sec rows)
             (case self_fields self of None \<Rightarrow> [] | Some fs \<Rightarrow> fs) (self, outDF) = (r1, (self1, df1))"
    by (metis prod.exhaust)
  have "only_told (fst (self, outDF)) (fst (self1, df1))"
    by (rule for_each_rel [where R = "\<lambda>a b. only_told (fst a) (fst b)", OF _ _ _ loop])
       (auto intro: historical_field_only_told only_told_refl only_told_trans)
  then have a: "only_told self self1" by simp
  show ?thesis
  proof (cases r1)
    case None
    with assms Inr t loop have "notify upd \<lparr>security = sec, field = ''ALL'', data = df1\<rparr> self1 = (r, self')"
      by (simp add: historical_entry_def)
    from only_told_trans [OF a notify_only_told [OF this]] show ?thesis .
  next
    case (Some e)
    with assms Inr t loop have "self' = self1" by (simp add: historical_entry_def)
    with a show ?thesis by simp
  qed
qed

lemma dispatch_only_told:
  assumes "dispatch upd ev self = (r, self')"
  shows "only_told self self'"
proof (cases "and_then (first_message ev) (\<lambda>msg. getElement msg SECURITY_DATA)")
  case (Inl e)
  with assms show ?thesis by (simp add: dispatch_def only_told_refl)
next
  case (Inr sd)
  with assms have loop: "for_each (\<lambda>i self.
                      if map_of (kwargs self) ''startDate'' \<noteq> None
                      then historical_entry upd ev self
                      else reference_entry ev i self)
            [0..<numValues sd] self = (r, self')"
    by (simp add: dispatch_def)
  show ?thesis
    by (rule for_each_rel [where R = only_told, OF _ _ _ loop])
       (auto intro: historical_entry_only_told reference_entry_only_told only_told_refl only_told_trans
             split: if_splits)
qed

lemma only_told_session: "only_told a b \<Longrightarrow> session b = session a"
  unfolding only_told_def by (drule arg_cong [where f = session]) simp

lemma only_told_kwargs: "only_told a b \<Longrightarrow> kwargs b = kwargs a"
  unfolding only_told_def by (drule arg_cong [where f = kwargs]) simp

lemma only_told_moved:
  "only_told (a\<lparr>session := s\<rparr>) b \<Longrightarrow>
   b\<lparr>session := t, stdout := [], notified := []\<rparr> = a\<lparr>session := t, stdout := [], notified := []\<rparr>"
  unfolding only_told_def by (cases a, cases b) simp

lemma get_events_step:
  "get_events upd self =
     (case incoming (session self) (cursor (session self)) of
        Inl e \<Rightarrow> Some (Inl e, self\<lparr>session := (session self)\<lparr>cursor := Suc (cursor (session self))\<rparr>\<rparr>)
      | Inr ev \<Rightarrow>
          (if eventType ev = RESPONSE \<or> eventType ev = PARTIAL_RESPONSE
           then (case dispatch upd ev (self\<lparr>session := (session self)\<lparr>cursor := Suc (cursor (session self))\<rparr>\<rparr>) of
                   (Some e, self') \<Rightarrow> Some (Inl e, self')
                 | (None, self') \<Rightarrow>
                     if eventType ev = RESPONSE then Some (Inr PyNone, self')
                     else get_events upd self')
           else get_events upd (self\<lparr>session := (session self)\<lparr>cursor := Suc (cursor (session self))\<rparr>\<rparr>)))"
  by (subst get_events.simps) (simp add: nextEvent_def)

lemma get_events_reaches:
  "stops (incoming (session self) (cursor (session self) + n)) \<Longrightarrow> get_events upd self \<noteq> None"
proof (induction n arbitrary: self)
  case 0
  show ?case
  proof (cases "incoming (session self) (cursor (session self))")
    case (Inl e)
    then show ?thesis by (subst get_events_step) simp
  next
    case (Inr ev)
    with 0 have "eventType ev = RESPONSE" by (simp add: stops_def)
    with Inr show ?thesis
      by (subst get_events_step) (simp split: prod.splits option.splits)
  qed
next
  case (Suc n)
  let ?s = "(session self)\<lparr>cursor := Suc (cursor (session self))\<rparr>"
  show ?case
  proof (cases "incoming (session self) (cursor (session self))")
    case (Inl e)
    then show ?thesis by (subst get_events_step) simp
  next
    case (Inr ev)
    have next_ok: "get_events upd b \<noteq> None" if "session b = ?s" for b
      using Suc.IH [of b] Suc.prems that by simp
    show ?thesis
    proof (cases "eventType ev = RESPONSE \<or> eventType ev = PARTIAL_RESPONSE")
      case False
      with Inr next_ok [of "self\<lparr>session := ?s\<rparr>"] show ?thesis
        by (subst get_events_step) simp
    next
      case True
      obtain r b where d: "dispatch upd ev (self\<lparr>session := ?s\<rparr>) = (r, b)"
        by (cases "dispatch upd ev (self\<lparr>session := ?s\<rparr>)")
      from only_told_session [OF dispatch_only_told [OF d]] have "session b = ?s" by simp
      from next_ok [OF this] Inr True d show ?thesis
        by (subst get_events_step) (simp split: option.splits)
    qed
  qed
qed

lemma get_events_result:
  assumes "get_events upd self = Some y"
  shows "\<exists>j \<ge> cursor (session self).
      (snd y)\<lparr>stdout := [], notified := []\<rparr>
        = self\<lparr>session := (session self)\<lparr>cursor := Suc j\<rparr>, stdout := [], notified := []\<rparr>
    \<and> (case incoming (session self) j of
          Inl e \<Rightarrow> fst y = Inl e
        | Inr ev \<Rightarrow> (eventType ev = RESPONSE \<and> (fst y = Inr PyNone \<or> isl (fst y)))
                    \<or> (eventType ev = PARTIAL_RESPONSE \<and> isl (fst y)))"
  using assms
proof (induction rule: get_events.raw_induct [rotated 1, consumes 1])
  case (1 f upd self y)
  let ?c = "cursor (session self)"
  let ?s = "(session self)\<lparr>cursor := Suc ?c\<rparr>"
  let ?Q = "\<lambda>j. (snd y)\<lparr>stdout := [], notified := []\<rparr>
        = self\<lparr>session := (session self)\<lparr>cursor := Suc j\<rparr>, stdout := [], notified := []\<rparr>
    \<and> (case incoming (session self) j of
          Inl e \<Rightarrow> fst y = Inl e
        | Inr ev \<Rightarrow> (eventType ev = RESPONSE \<and> (fst y = Inr PyNone \<or> isl (fst y)))
                    \<or> (eventType ev = PARTIAL_RESPONSE \<and> isl (fst y)))"
  have later: "\<exists>j \<ge> ?c. ?Q j" if rec: "f upd b = Some y" and b: "only_told (self\<lparr>session := ?s\<rparr>) b" for b
  proof -
    have sb: "session b = ?s" using only_told_session [OF b] by simp
    from 1(1) [OF rec] obtain j where j: "j \<ge> cursor (session b)"
      and eq: "(snd y)\<lparr>stdout := [], notified := []\<rparr>
        = b\<lparr>session := (session b)\<lparr>cursor := Suc j\<rparr>, stdout := [], notified := []\<rparr>"
      and ev: "(case incoming (session b) j of
          Inl e \<Rightarrow> fst y = Inl e
        | Inr ev \<Rightarrow> (eventType ev = RESPONSE \<and> (fst y = Inr PyNone \<or> isl (fst y)))
                    \<or> (eventType ev = PARTIAL_RESPONSE \<and> isl (fst y)))"
      by blast
    have "(snd y)\<lparr>stdout := [], notified := []\<rparr>
        = self\<lparr>session := (session self)\<lparr>cursor := Suc j\<rparr>, stdout := [], notified := []\<rparr>"
      using eq only_told_moved [OF b, of "(session self)\<lparr>cursor := Suc j\<rparr>"] sb by simp
    moreover have "j \<ge> ?c" using j sb by simp
    ultimately show ?thesis using ev sb by (intro exI [of _ j]) simp
  qed
  show ?case
  proof (cases "incoming (session self) ?c")
    case (Inl e)
    with 1(2) have "y = (Inl e, self\<lparr>session := ?s\<rparr>)" by (simp add: nextEvent_def)
    with Inl have "?Q ?c" by simp
    then show ?thesis by blast
  next
    case (Inr ev)
    show ?thesis
    proof (cases "eventType ev = RESPONSE \<or> eventType ev = PARTIAL_RESPONSE")
      case False
      with Inr 1(2) have "f upd (self\<lparr>session := ?s\<rparr>) = Some y" by (simp add: nextEvent_def)
      from later [OF this only_told_refl] show ?thesis .
    next
      case True
      obtain r b where d: "dispatch upd ev (self\<lparr>session := ?s\<rparr>) = (r, b)"
        by (cases "dispatch upd ev (self\<lparr>session := ?s\<rparr>)")
      note b = dispatch_only_told [OF d]
      have moved: "b\<lparr>stdout := [], notified := []\<rparr> = self\<lparr>session := ?s, stdout := [], notified := []\<rparr>"
        using b by (simp add: only_told_def)
      show ?thesis
      proof (cases r)
        case (Some e)
        with Inr True d 1(2) have "y = (Inl e, b)" by (simp add: nextEvent_def)
        with Inr True moved have "?Q ?c" by auto
        then show ?thesis by blast
      next
        case None
        show ?thesis
        proof (cases "eventType ev = RESPONSE")
          case True
          with Inr None d 1(2) have "y = (Inr PyNone, b)" by (simp add: nextEvent_def)
          with Inr True moved have "?Q ?c" by auto
          then show ?thesis by blast
        next
          case False
          with True Inr None d 1(2) have "f upd b = Some y" by (simp add: nextEvent_def)
          from later [OF this b] show ?thesis .
        qed
      qed
    qed
  qed
qed

section \<open>Runs on the example sessions\<close>

lemmas vendor_defs = first_message_def and_then_def SECURITY_DATA_def FIELD_DATA_def SECURITY_def DATE_def
  getElementAsString_def getElementAsFloat_def getElementAsDatetime_def

lemmas request_defs = createRequest_def set_elem_def append_security_def append_field_def
  appendElement_def setElement_def refDataSvc_def refExrSvc_def

lemmas session_defs = line_def always_def accepts_all_def sendRequest_def nextEvent_def

lemmas frame_defs = DataFrame_def set_column_def replace_cells_def to_datetime_index_def
  select_columns_def values_tolist_def last_item_def DataFrame_of_list_def

lemma history_watcher_eq:
  "history_watcher ev =
     \<lparr>session = line ev, stdout = [], observers = [],
      kwargs = [(''startDate'', PyDate (Date 2014 1 1)), (''endDate'', PyDate (Date 2014 1 9))],
      request = Some \<lparr>service = ''//BLP/refdata'', operation = ''HistoricalDataRequest'',
                      req_securities = [''SPX Index''], req_fields = [''PX_LAST''], overrides = [],
                      settings = [(''startDate'', PyStr ''20140101''), (''endDate'', PyStr ''20140109''),
                                  (''periodicitySelection'', PyStr ''DAILY'')]\<rparr>,
      startDate = Some (PyDate (Date 2014 1 1)), endDate = Some (PyDate (Date 2014 1 9)),
      periodicity = Some (PyStr ''DAILY''), self_output = None,
      self_securities = Some [''SPX Index''], self_fields = Some [''PX_LAST''], notified = []\<rparr>"
  by (simp add: history_watcher_def BLPTS_init_def fillRequest_def fill_historical_def Let_def
     strftime_def strftime_Ymd_def digit_def on_request_def request_defs)

lemma reference_watcher_eq:
  "reference_watcher ev =
     \<lparr>session = line ev, stdout = [], observers = [], kwargs = [],
      request = Some \<lparr>service = ''//BLP/refdata'', operation = ''ReferenceDataRequest'',
                      req_securities = [''IBM US Equity''], req_fields = [''PX_LAST''], overrides = [],
                      settings = []\<rparr>,
      startDate = None, endDate = None, periodicity = None,
      self_output = Some \<lparr>index = [Key ''IBM US Equity''], columns = [Key ''PX_LAST''], cells = [[NaN]]\<rparr>,
      self_securities = Some [''IBM US Equity''], self_fields = Some [''PX_LAST''], notified = []\<rparr>"
  by (simp add: reference_watcher_def BLPTS_init_def fillRequest_def fill_reference_def Let_def
     on_request_def request_defs frame_defs)

lemma dispatch_history:
  "map_of (kwargs self) ''startDate'' \<noteq> None \<Longrightarrow> self_fields self = Some [''PX_LAST''] \<Longrightarrow>
   observers self = [1, 2] \<Longrightarrow>
   dispatch returns history_response self =
     (None, self\<lparr>notified := notified self @
        [(1, \<lparr>security = ''SPX Index'', field = ''PX_LAST'', data = price_table\<rparr>),
         (2, \<lparr>security = ''SPX Index'', field = ''PX_LAST'', data = price_table\<rparr>),
         (1, \<lparr>security = ''SPX Index'', field = ''ALL'', data = price_table\<rparr>),
         (2, \<lparr>security = ''SPX Index'', field = ''ALL'', data = price_table\<rparr>)]\<rparr>)"
  by (simp add: dispatch_def history_response_def vendor_defs historical_entry_def historical_table_def
      historical_field_def field_column_def notify_def returns_def frame_defs price_table_def upt_rec)

lemma get_events_history_run:
  "get_events returns ((history_watcher history_response)\<lparr>observers := [1, 2]\<rparr>) =
     Some (Inr PyNone,
       (history_watcher history_response)
         \<lparr>session := (line history_response)\<lparr>cursor := 1\<rparr>,
          observers := [1, 2],
          notified :=
        [(1, \<lparr>security = ''SPX Index'', field = ''PX_LAST'', data = price_table\<rparr>),
         (2, \<lparr>security = ''SPX Index'', field = ''PX_LAST'', data = price_table\<rparr>),
         (1, \<lparr>security = ''SPX Index'', field = ''ALL'', data = price_table\<rparr>),
         (2, \<lparr>security = ''SPX Index'', field = ''ALL'', data = price_table\<rparr>)]\<rparr>)"
  apply (subst get_events_step)
  apply (simp add: history_watcher_eq session_defs dispatch_history)
  apply (simp add: history_response_def)
  done

lemma get_history_run:
  "get returns ((history_watcher history_response)\<lparr>observers := [1, 2]\<rparr>) (Many []) (Many []) [] =
     Some (Inr PyNone,
       (history_watcher history_response)
         \<lparr>session := (line history_response)\<lparr>cursor := 1,
              sent := [the (request (history_watcher history_response))]\<rparr>,
          observers := [1, 2],
          notified :=
        [(1, \<lparr>security = ''SPX Index'', field = ''PX_LAST'', data = price_table\<rparr>),
         (2, \<lparr>security = ''SPX Index'', field = ''PX_LAST'', data = price_table\<rparr>),
         (1, \<lparr>security = ''SPX Index'', field = ''ALL'', data = price_table\<rparr>),
         (2, \<lparr>security = ''SPX Index'', field = ''ALL'', data = price_table\<rparr>)]\<rparr>)"
  apply (simp add: get_def get_send_def history_watcher_eq session_defs)
  apply (subst get_events_step)
  apply (simp add: session_defs dispatch_history)
  apply (simp add: history_response_def)
  done

section \<open>Termination of the loops, and what get returns\<close>

lemma request_response_None:
  "request_response s rq = None \<longleftrightarrow> refuses s rq = None \<and> (\<forall>j \<ge> cursor s. \<not> stops (incoming s j))"
proof (cases "refuses s rq")
  case None
  then have "request_response s rq = await_response (s\<lparr>sent := sent s @ [rq]\<rparr>)"
    by (simp add: request_response_def sendRequest_def)
  moreover have "await_response (s\<lparr>sent := sent s @ [rq]\<rparr>) = None
      \<longleftrightarrow> (\<forall>j \<ge> cursor s. \<not> stops (incoming s j))"
    using await_response_iff [of "s\<lparr>sent := sent s @ [rq]\<rparr>"]
    by (simp del: not_None_eq) blast
  ultimately show ?thesis using None by simp
next
  case (Some e)
  then show ?thesis by (simp add: request_response_def sendRequest_def)
qed

lemma bdp_None:
  "bdp self a b c d e f = None \<longleftrightarrow> request_response (session self) (bdp_request a b c d e f) = None"
  by (simp add: bdp_def split: option.splits prod.splits sum.splits)

lemma bdh_None:
  "bdh self a b c d e f g = None
     \<longleftrightarrow> request_response (session self) (bdh_request a (as_list b) c d e f) = None"
  by (simp add: bdh_def split: option.splits prod.splits sum.splits)

lemma bsrch_None:
  "bsrch self a = None \<longleftrightarrow> request_response (session self) (bsrch_request a) = None"
  by (simp add: bsrch_def split: option.splits prod.splits sum.splits)

lemma get_events_outcome:
  assumes "get_events upd self = Some (r, self')"
  shows "\<exists>j \<ge> cursor (session self).
      self'\<lparr>stdout := [], notified := []\<rparr>
        = self\<lparr>session := (session self)\<lparr>cursor := Suc j\<rparr>, stdout := [], notified := []\<rparr>
    \<and> (case incoming (session self) j of
          Inl e \<Rightarrow> r = Inl e
        | Inr ev \<Rightarrow> (eventType ev = RESPONSE \<and> (r = Inr PyNone \<or> isl r))
                    \<or> (eventType ev = PARTIAL_RESPONSE \<and> isl r))"
  using get_events_result [OF assms] by (simp cong: sum.case_cong)

lemma get_events_normal_return:
  assumes "get_events upd self = Some (Inr v, self')"
  shows "v = PyNone"
    and "\<exists>j \<ge> cursor (session self). \<exists>ev. incoming (session self) j = Inr ev \<and> eventType ev = RESPONSE"
    and "\<exists>j \<ge> cursor (session self). self'\<lparr>stdout := [], notified := []\<rparr>
        = self\<lparr>session := (session self)\<lparr>cursor := Suc j\<rparr>, stdout := [], notified := []\<rparr>"
proof -
  obtain j where all: "j \<ge> cursor (session self) \<and>
      (self'\<lparr>stdout := [], notified := []\<rparr>
        = self\<lparr>session := (session self)\<lparr>cursor := Suc j\<rparr>, stdout := [], notified := []\<rparr>
    \<and> (case incoming (session self) j of
          Inl e \<Rightarrow> Inr v = (Inl e :: error + pyval)
        | Inr ev \<Rightarrow> (eventType ev = RESPONSE \<and> (Inr v = (Inr PyNone :: error + pyval) \<or> isl (Inr v :: error + pyval)))
                    \<or> (eventType ev = PARTIAL_RESPONSE \<and> isl (Inr v :: error + pyval))))"
    using get_events_outcome [OF assms] by (rule exE)
  from all have j: "j \<ge> cursor (session self)" by (rule conjunct1)
  from all have eq: "self'\<lparr>stdout := [], notified := []\<rparr>
        = self\<lparr>session := (session self)\<lparr>cursor := Suc j\<rparr>, stdout := [], notified := []\<rparr>"
    by (rule conjunct1 [OF conjunct2])
  from all have ev: "(case incoming (session self) j of
          Inl e \<Rightarrow> Inr v = (Inl e :: error + pyval)
        | Inr ev \<Rightarrow> (eventType ev = RESPONSE \<and> (Inr v = (Inr PyNone :: error + pyval) \<or> isl (Inr v :: error + pyval)))
                    \<or> (eventType ev = PARTIAL_RESPONSE \<and> isl (Inr v :: error + pyval)))"
    by (rule conjunct2 [OF conjunct2])
  obtain e where e: "incoming (session self) j = Inr e" "eventType e = RESPONSE" "v = PyNone"
  proof (cases "incoming (session self) j")
    case (Inl x)
    with ev show ?thesis by simp
  next
    case (Inr e)
    with ev have "eventType e = RESPONSE \<and> v = PyNone" by simp
    with Inr that show ?thesis by simp
  qed
  show "v = PyNone" by (rule e(3))
  show "\<exists>j \<ge> cursor (session self). \<exists>ev. incoming (session self) j = Inr ev \<and> eventType ev = RESPONSE"
    using j e(1,2) by (intro exI [of _ j] conjI exI [of _ e])
  show "\<exists>j \<ge> cursor (session self). self'\<lparr>stdout := [], notified := []\<rparr>
        = self\<lparr>session := (session self)\<lparr>cursor := Suc j\<rparr>, stdout := [], notified := []\<rparr>"
    using j eq by (intro exI [of _ j] conjI)
qed

lemma get_events_ends_at:
  assumes "get_events upd self = Some (r, self')"
  shows "\<exists>j \<ge> cursor (session self). stops (incoming (session self) j)
            \<or> (\<exists>ev. incoming (session self) j = Inr ev \<and> eventType ev = PARTIAL_RESPONSE \<and> isl r)"
proof -
  obtain j where all: "j \<ge> cursor (session self) \<and>
      (self'\<lparr>stdout := [], notified := []\<rparr>
        = self\<lparr>session := (session self)\<lparr>cursor := Suc j\<rparr>, stdout := [], notified := []\<rparr>
    \<and> (case incoming (session self) j of
          Inl e \<Rightarrow> r = Inl e
        | Inr ev \<Rightarrow> (eventType ev = RESPONSE \<and> (r = Inr PyNone \<or> isl r))
                    \<or> (eventType ev = PARTIAL_RESPONSE \<and> isl r)))"
    using get_events_outcome [OF assms] by (rule exE)
  from all have j: "j \<ge> cursor (session self)" by (rule conjunct1)
  from all have ev: "(case incoming (session self) j of
          Inl e \<Rightarrow> r = Inl e
        | Inr ev \<Rightarrow> (eventType ev = RESPONSE \<and> (r = Inr PyNone \<or> isl r))
                    \<or> (eventType ev = PARTIAL_RESPONSE \<and> isl r))"
    by (rule conjunct2 [OF conjunct2])
  have "stops (incoming (session self) j)
            \<or> (\<exists>ev. incoming (session self) j = Inr ev \<and> eventType ev = PARTIAL_RESPONSE \<and> isl r)"
  proof (cases "incoming (session self) j")
    case (Inl x)
    then show ?thesis by (simp add: stops_def)
  next
    case (Inr e)
    with ev show ?thesis by (auto simp add: stops_def)
  qed
  with j show ?thesis by (intro exI [of _ j] conjI)
qed

text \<open>
  C6, as the code has it. No loop has a timeout, a retry limit or a way to cancel; a loop
  is left at a \<open>RESPONSE\<close> event or by an exception. The loop of \<open>bdp\<close>, \<open>bdh\<close>
  and \<open>bsrch\<close> terminates if and only if the stream, from the cursor on, yields a
  \<open>RESPONSE\<close> event or \<open>nextEvent\<close> raises; each of the three operations fails to
  return exactly when its request is accepted and the stream never does so. The loop of
  \<open>BLPTS.get\<close> terminates whenever the stream does so; it returns normally only after
  a \<open>RESPONSE\<close> event; it can also be left by an exception raised while a
  \<open>PARTIAL_RESPONSE\<close> is handled; on a stream that yields neither kind of response
  and never raises it does not terminate.
\<close>

theorem polling_loops_leave_at_response_or_exception:
  "(await_response s \<noteq> None \<longleftrightarrow> (\<exists>j \<ge> cursor s. stops (incoming s j)))
   \<and> (bdp client strSecurity strData f1 v1 f2 v2 = None
        \<longleftrightarrow> refuses (session client) (bdp_request strSecurity strData f1 v1 f2 v2) = None
            \<and> (\<forall>j \<ge> cursor (session client). \<not> stops (incoming (session client) j)))
   \<and> (bdh client strSecurity fieldArg d1 d2 adj per single = None
        \<longleftrightarrow> refuses (session client) (bdh_request strSecurity (as_list fieldArg) d1 d2 adj per) = None
            \<and> (\<forall>j \<ge> cursor (session client). \<not> stops (incoming (session client) j)))
   \<and> (bsrch client domain = None
        \<longleftrightarrow> refuses (session client) (bsrch_request domain) = None
            \<and> (\<forall>j \<ge> cursor (session client). \<not> stops (incoming (session client) j)))
   \<and> ((\<exists>j \<ge> cursor (session self). stops (incoming (session self) j)) \<longrightarrow> get_events upd self \<noteq> None)
   \<and> (get_events upd self = Some (Inr v, self') \<longrightarrow>
        (\<exists>j \<ge> cursor (session self). \<exists>ev. incoming (session self) j = Inr ev \<and> eventType ev = RESPONSE))
   \<and> (get_events upd self = Some (r, self') \<longrightarrow>
        (\<exists>j \<ge> cursor (session self). stops (incoming (session self) j)
            \<or> (\<exists>ev. incoming (session self) j = Inr ev \<and> eventType ev = PARTIAL_RESPONSE \<and> isl r)))
   \<and> ((\<forall>j \<ge> cursor (session self). \<exists>ev. incoming (session self) j = Inr ev
            \<and> eventType ev \<noteq> RESPONSE \<and> eventType ev \<noteq> PARTIAL_RESPONSE) \<longrightarrow>
        get_events upd self = None)"
proof (intro conjI)
  show "await_response s \<noteq> None \<longleftrightarrow> (\<exists>j \<ge> cursor s. stops (incoming s j))"
    by (rule await_response_iff)
  show "bdp client strSecurity strData f1 v1 f2 v2 = None
        \<longleftrightarrow> refuses (session client) (bdp_request strSecurity strData f1 v1 f2 v2) = None
            \<and> (\<forall>j \<ge> cursor (session client). \<not> stops (incoming (session client) j))"
    by (simp only: bdp_None request_response_None)
  show "bdh client strSecurity fieldArg d1 d2 adj per single = None
        \<longleftrightarrow> refuses (session client) (bdh_request strSecurity (as_list fieldArg) d1 d2 adj per) = None
            \<and> (\<forall>j \<ge> cursor (session client). \<not> stops (incoming (session client) j))"
    by (simp only: bdh_None request_response_None)
  show "bsrch client domain = None
        \<longleftrightarrow> refuses (session client) (bsrch_request domain) = None
            \<and> (\<forall>j \<ge> cursor (session client). \<not> stops (incoming (session client) j))"
    by (simp only: bsrch_None request_response_None)
  show "(\<exists>j \<ge> cursor (session self). stops (incoming (session self) j)) \<longrightarrow> get_events upd self \<noteq> None"
  proof
    assume "\<exists>j \<ge> cursor (session self). stops (incoming (session self) j)"
    then obtain j where "j \<ge> cursor (session self)" "stops (incoming (session self) j)" by blast
    then have "stops (incoming (session self) (cursor (session self) + (j - cursor (session self))))"
      by simp
    then show "get_events upd self \<noteq> None" by (rule get_events_reaches)
  qed
  show "get_events upd self = Some (Inr v, self') \<longrightarrow>
        (\<exists>j \<ge> cursor (session self). \<exists>ev. incoming (session self) j = Inr ev \<and> eventType ev = RESPONSE)"
    using get_events_normal_return(2) by blast
  show "get_events upd self = Some (r, self') \<longrightarrow>
        (\<exists>j \<ge> cursor (session self). stops (incoming (session self) j)
            \<or> (\<exists>ev. incoming (session self) j = Inr ev \<and> eventType ev = PARTIAL_RESPONSE \<and> isl r))"
    using get_events_ends_at by blast
  show "(\<forall>j \<ge> cursor (session self). \<exists>ev. incoming (session self) j = Inr ev
            \<and> eventType ev \<noteq> RESPONSE \<and> eventType ev \<noteq> PARTIAL_RESPONSE) \<longrightarrow>
        get_events upd self = None"
  proof
    assume quiet: "\<forall>j \<ge> cursor (session self). \<exists>ev. incoming (session self) j = Inr ev
            \<and> eventType ev \<noteq> RESPONSE \<and> eventType ev \<noteq> PARTIAL_RESPONSE"
    show "get_events upd self = None"
    proof (rule ccontr)
      assume "get_events upd self \<noteq> None"
      then obtain r b where "get_events upd self = Some (r, b)" by auto
      from get_events_ends_at [OF this] obtain j where "j \<ge> cursor (session self)"
        "stops (incoming (session self) j)
            \<or> (\<exists>ev. incoming (session self) j = Inr ev \<and> eventType ev = PARTIAL_RESPONSE \<and> isl r)"
        by blast
      with quiet show False by (auto simp add: stops_def)
    qed
  qed
qed

lemma get_partial_error_run:
  "get returns (history_watcher partial_error) (Many []) (Many []) [] =
     Some (Inl NotFoundException,
       (history_watcher partial_error)
         \<lparr>session := (line partial_error)\<lparr>cursor := 1,
              sent := [the (request (history_watcher partial_error))]\<rparr>\<rparr>)"
  apply (simp add: get_def get_send_def history_watcher_eq session_defs)
  apply (subst get_events_step)
  apply (simp add: session_defs partial_error_def dispatch_def vendor_defs)
  done

theorem get_loop_left_without_response_counterexample:
  "get returns (history_watcher partial_error) (Many []) (Many []) [] \<noteq> None
   \<and> map_option fst (get returns (history_watcher partial_error) (Many []) (Many []) [])
       = Some (Inl NotFoundException)
   \<and> \<not> (\<exists>j ev. incoming (session (history_watcher partial_error)) j = Inr ev \<and> eventType ev = RESPONSE)"
  by (simp add: get_partial_error_run) (simp add: history_watcher_eq line_def always_def partial_error_def)

theorem polling_loops_leave_at_response_or_exception_witness:
  "await_response (line reference_response) \<noteq> None
   \<and> bdp (serving heartbeat) ''IBM US Equity'' ''PX_LAST'' '''' '''' '''' '''' = None
   \<and> bdh (serving heartbeat) ''SPX Index'' (One ''PX_LAST'') (Date 2014 1 1) (Date 2014 1 9)
        (PyBool False) (PyStr ''DAILY'') (PyBool False) = None
   \<and> bsrch (serving heartbeat) ''fi:EX'' = None
   \<and> get_events returns (history_watcher history_response) \<noteq> None
   \<and> get_events returns (history_watcher heartbeat) = None"
  using get_events_history_run
        polling_loops_leave_at_response_or_exception
          [where self = "(history_watcher history_response)\<lparr>observers := [1, 2]\<rparr>" and upd = returns
             and v = PyNone and r = "Inr PyNone"
             and self' = "(history_watcher history_response)
         \<lparr>session := (line history_response)\<lparr>cursor := 1\<rparr>,
          observers := [1, 2],
          notified :=
        [(1, \<lparr>security = ''SPX Index'', field = ''PX_LAST'', data = price_table\<rparr>),
         (2, \<lparr>security = ''SPX Index'', field = ''PX_LAST'', data = price_table\<rparr>),
         (1, \<lparr>security = ''SPX Index'', field = ''ALL'', data = price_table\<rparr>),
         (2, \<lparr>security = ''SPX Index'', field = ''ALL'', data = price_table\<rparr>)]\<rparr>"]
        polling_loops_leave_at_response_or_exception
          [where s = "line reference_response" and client = "serving heartbeat"
             and strSecurity = "''IBM US Equity''" and strData = "''PX_LAST''"
             and ?f1.0 = "''''" and ?v1.0 = "''''" and ?f2.0 = "''''" and ?v2.0 = "''''"
             and self = "history_watcher heartbeat" and upd = returns]
        polling_loops_leave_at_response_or_exception
          [where client = "serving heartbeat"
             and strSecurity = "''SPX Index''" and fieldArg = "One ''PX_LAST''"
             and ?d1.0 = "Date 2014 1 1" and ?d2.0 = "Date 2014 1 9"
             and adj = "PyBool False" and per = "PyStr ''DAILY''" and single = "PyBool False"
             and domain = "''fi:EX''"
             and self = "history_watcher history_response" and upd = returns]
  by (simp add: history_watcher_eq serving_def line_def always_def accepts_all_def stops_def
        heartbeat_def reference_response_def history_response_def)

text \<open>
  C5. Whenever \<open>BLPTS.get\<close> returns, it returns \<open>None\<close>. What it parsed is kept
  nowhere in the object: apart from the request filled and sent at the start and the
  position in the event stream, the state after the call differs from the state before
  only in the calls made to the observers and in what was printed.
\<close>

theorem get_returns_None:
  assumes "get upd self newSecurities newFields kw = Some (Inr v, self')"
  shows "v = PyNone
       \<and> (\<exists>self1. get_send self newSecurities newFields kw = (None, self1)
            \<and> (\<exists>j \<ge> cursor (session self1).
                  self'\<lparr>stdout := [], notified := []\<rparr>
                    = self1\<lparr>session := (session self1)\<lparr>cursor := Suc j\<rparr>,
                            stdout := [], notified := []\<rparr>))"
proof -
  obtain r1 self1 where s: "get_send self newSecurities newFields kw = (r1, self1)"
    by (cases "get_send self newSecurities newFields kw")
  with assms have r1: "r1 = None" and run: "get_events upd self1 = Some (Inr v, self')"
    by (cases r1; simp add: get_def)+
  from get_events_normal_return(1) [OF run] get_events_normal_return(3) [OF run] s r1
  show ?thesis by simp
qed

theorem get_returns_None_witness:
  "get returns ((history_watcher history_response)\<lparr>observers := [1, 2]\<rparr>) (Many []) (Many []) []
     = Some (Inr PyNone,
         (history_watcher history_response)
           \<lparr>session := (line history_response)\<lparr>cursor := 1,
                sent := [the (request (history_watcher history_response))]\<rparr>,
            observers := [1, 2],
            notified :=
              [(1, \<lparr>security = ''SPX Index'', field = ''PX_LAST'', data = price_table\<rparr>),
               (2, \<lparr>security = ''SPX Index'', field = ''PX_LAST'', data = price_table\<rparr>),
               (1, \<lparr>security = ''SPX Index'', field = ''ALL'', data = price_table\<rparr>),
               (2, \<lparr>security = ''SPX Index'', field = ''ALL'', data = price_table\<rparr>)]\<rparr>)"
  using get_returns_None [OF get_history_run] get_history_run by simp

section \<open>The table of bdh\<close>

lemma and_then_Inr: "and_then r f = Inr y \<longleftrightarrow> (\<exists>x. r = Inr x \<and> f x = Inr y)"
  by (cases r) (simp_all add: and_then_def)

lemma and_then_Inl: "and_then r f = Inl e \<longleftrightarrow> r = Inl e \<or> (\<exists>x. r = Inr x \<and> f x = Inl e)"
  by (cases r) (simp_all add: and_then_def)







section \<open>The requests of BLP2\<close>

lemma request_response_cases:
  assumes "request_response s rq = Some (r, s')"
  shows "(refuses s rq = Some e0 \<longrightarrow> r = Inl e0 \<and> s' = s)
       \<and> (refuses s rq = None \<longrightarrow>
            (\<exists>j \<ge> cursor s. stops (incoming s j) \<and> r = incoming s j
               \<and> s' = s\<lparr>sent := sent s @ [rq], cursor := Suc j\<rparr>))"
proof (cases "refuses s rq")
  case None
  with assms have "await_response (s\<lparr>sent := sent s @ [rq]\<rparr>) = Some (r, s')"
    by (simp add: request_response_def sendRequest_def)
  from await_response_result [OF this] None show ?thesis by auto
next
  case (Some e)
  with assms show ?thesis by (auto simp add: request_response_def sendRequest_def)
qed

lemma request_response_sent:
  assumes "request_response s rq = Some (r, s')"
  shows "sent s' = (if refuses s rq = None then sent s @ [rq] else sent s)"
proof (cases "refuses s rq")
  case None
  with request_response_cases [OF assms] show ?thesis by auto
next
  case (Some e)
  with request_response_cases [OF assms, of e] show ?thesis by simp
qed


lemma bdh_session:
  "bdh self a b c d e f g = Some (r, self') \<Longrightarrow>
   \<exists>x. request_response (session self) (bdh_request a (as_list b) c d e f) = Some (x, session self')"
  by (auto simp add: bdh_def split: option.splits prod.splits sum.splits)



lemma foldl_append_field:
  "foldl (\<lambda>r strD. r\<lparr>req_fields := req_fields r @ [strD]\<rparr>) rq fs = rq\<lparr>req_fields := req_fields rq @ fs\<rparr>"
  by (induction fs arbitrary: rq) simp_all

lemma bdh_request_eq:
  "bdh_request sec fs d1 d2 adj per =
     \<lparr>service = ''//BLP/refdata'', operation = ''HistoricalDataRequest'',
      req_securities = [sec], req_fields = fs, overrides = [],
      settings = [(''startDate'', PyStr (strftime_Ymd d1)), (''endDate'', PyStr (strftime_Ymd d2)),
                  (''adjustmentSplit'', PyStr (if truthy adj then ''TRUE'' else ''FALSE'')),
                  (''periodicitySelection'', per)]\<rparr>"
  by (simp add: bdh_request_def Let_def foldl_append_field request_defs)


lemma request_response_line:
  "eventType ev = RESPONSE \<Longrightarrow>
   request_response (line ev) rq = Some (Inr ev, (line ev)\<lparr>sent := [rq], cursor := 1\<rparr>)"
  by (simp add: request_response_def line_def accepts_all_def sendRequest_def)
     (subst await_response_step, simp add: stops_def always_def)






lemma bdh_output_ohlc:
  "bdh_output ohlc_response [''PX_OPEN'', ''PX_HIGH'', ''PX_LOW'', ''PX_LAST''] =
     Inr \<lparr>index = [Stamp (Day (Date 2014 1 2))],
          columns = [Key ''PX_OPEN'', Key ''PX_HIGH'', Key ''PX_LOW'', Key ''PX_LAST''],
          cells = [[Num 1845.86], [Num 1845.86], [Num 1827.74], [Num 1831.98]]\<rparr>"
  by (simp add: bdh_output_def bdh_rows_def ohlc_response_def vendor_defs frame_defs)

lemma bdhOHLC_run:
  "bdhOHLC (serving ohlc_response) sec d1 d2 per =
     Some (Inr (PyFrame \<lparr>index = [Stamp (Day (Date 2014 1 2))],
          columns = [Key ''PX_OPEN'', Key ''PX_HIGH'', Key ''PX_LOW'', Key ''PX_LAST''],
          cells = [[Num 1845.86], [Num 1845.86], [Num 1827.74], [Num 1831.98]]\<rparr>),
       \<lparr>session = (line ohlc_response)
          \<lparr>sent := [bdh_request sec [''PX_OPEN'', ''PX_HIGH'', ''PX_LOW'', ''PX_LAST'']
                      d1 d2 per (PyStr ''DAILY'')],
           cursor := 1\<rparr>, stdout = []\<rparr>)"
proof -
  have "eventType ohlc_response = RESPONSE" by (simp add: ohlc_response_def)
  note rr = request_response_line [OF this]
  show ?thesis
    by (simp add: bdhOHLC_def bdh_def serving_def rr bdh_output_ohlc and_then_def bdh_result_def)
qed

text \<open>
  C9. The request that \<open>bdhOHLC\<close> sends is the one \<open>bdh\<close> builds with the
  \<open>periodicity\<close> argument in the place of \<open>adjustmentSplit\<close>: its
  \<open>periodicitySelection\<close> is \<open>'DAILY'\<close> whatever the argument, and its
  \<open>adjustmentSplit\<close> is \<open>'TRUE'\<close> exactly when the argument is truthy.
\<close>

theorem bdhOHLC_sends_daily_and_split_from_periodicity:
  assumes "bdhOHLC self sec d1 d2 per = Some (r, self')"
  shows "\<exists>rq. rq = bdh_request sec [''PX_OPEN'', ''PX_HIGH'', ''PX_LOW'', ''PX_LAST''] d1 d2 per (PyStr ''DAILY'')
     \<and> sent (session self') =
         (if refuses (session self) rq = None then sent (session self) @ [rq] else sent (session self))
     \<and> operation rq = ''HistoricalDataRequest''
     \<and> map_of (settings rq) ''periodicitySelection'' = Some (PyStr ''DAILY'')
     \<and> map_of (settings rq) ''adjustmentSplit''
         = Some (PyStr (if truthy per then ''TRUE'' else ''FALSE''))"
proof -
  let ?rq = "bdh_request sec [''PX_OPEN'', ''PX_HIGH'', ''PX_LOW'', ''PX_LAST''] d1 d2 per (PyStr ''DAILY'')"
  from assms have "bdh self sec (Many [''PX_OPEN'', ''PX_HIGH'', ''PX_LOW'', ''PX_LAST'']) d1 d2 per
          (PyStr ''DAILY'') (PyBool False) = Some (r, self')"
    by (simp add: bdhOHLC_def)
  from bdh_session [OF this] obtain x where
    "request_response (session self) ?rq = Some (x, session self')" by auto
  from request_response_sent [OF this]
  have "sent (session self') =
         (if refuses (session self) ?rq = None then sent (session self) @ [?rq] else sent (session self))" .
  moreover have "operation ?rq = ''HistoricalDataRequest''"
    "map_of (settings ?rq) ''periodicitySelection'' = Some (PyStr ''DAILY'')"
    "map_of (settings ?rq) ''adjustmentSplit'' = Some (PyStr (if truthy per then ''TRUE'' else ''FALSE''))"
    by (simp_all add: bdh_request_eq)
  ultimately show ?thesis by blast
qed

theorem bdhOHLC_sends_daily_and_split_from_periodicity_witness:
  "map_option (\<lambda>(r, c). map settings (sent (session c)))
     (bdhOHLC (serving ohlc_response) ''SPX Index'' (Date 2014 1 1) (Date 2014 1 9) (PyStr ''WEEKLY''))
     = Some [[(''startDate'', PyStr ''20140101''), (''endDate'', PyStr ''20140109''),
              (''adjustmentSplit'', PyStr ''TRUE''), (''periodicitySelection'', PyStr ''DAILY'')]]
   \<and> map_option (\<lambda>(r, c). map settings (sent (session c)))
     (bdhOHLC (serving ohlc_response) ''SPX Index'' (Date 2014 1 1) (Date 2014 1 9) (PyStr ''''))
     = Some [[(''startDate'', PyStr ''20140101''), (''endDate'', PyStr ''20140109''),
              (''adjustmentSplit'', PyStr ''FALSE''), (''periodicitySelection'', PyStr ''DAILY'')]]"
  using bdhOHLC_sends_daily_and_split_from_periodicity [OF bdhOHLC_run [where sec = "''SPX Index''" and ?d1.0 = "Date 2014 1 1"
                 and ?d2.0 = "Date 2014 1 9" and per = "PyStr ''WEEKLY''"]]
    bdhOHLC_sends_daily_and_split_from_periodicity [OF bdhOHLC_run [where sec = "''SPX Index''" and ?d1.0 = "Date 2014 1 1"
                 and ?d2.0 = "Date 2014 1 9" and per = "PyStr ''''"]]
  by (simp add: bdhOHLC_run bdh_request_eq strftime_Ymd_def digit_def)

section \<open>What bdp and bdh return\<close>






section \<open>Exceptions\<close>






section \<open>The reference branch of get\<close>

lemma getElementAt_first: "0 < numElements fd \<Longrightarrow> \<exists>d. getElementAt fd 0 = Inr d"
  by (cases fd) simp_all

lemma reference_entry_parsed:
  assumes "first_message ev = Inr msg" "getElement msg SECURITY_DATA = Inr sd"
    and "getValueAsElement sd i = Inr out" "getElement out FIELD_DATA = Inr fd"
    and "and_then (getElement out SECURITY) getValueAsString = Inr sec"
  shows "reference_entry ev i ts =
           (if 0 < numElements fd then (Some (NameError ''_dict_from_element''), ts)
            else (None, ts\<lparr>stdout := stdout ts @ [''Empty response received for '' @ sec]\<rparr>))"
proof (cases "0 < numElements fd")
  case True
  from getElementAt_first [OF this] obtain d where "getElementAt fd 0 = Inr d" ..
  with assms True show ?thesis by (simp add: reference_entry_def and_then_def)
next
  case False
  with assms show ?thesis by (simp add: reference_entry_def and_then_def)
qed

lemma reference_entry_fields:
  assumes msg: "first_message ev = Inr msg" and sd: "getElement msg SECURITY_DATA = Inr sd"
    and e: "entry_fields sd i = Inr (sec, m)"
  shows "reference_entry ev i ts =
           (if 0 < m then (Some (NameError ''_dict_from_element''), ts)
            else (None, ts\<lparr>stdout := stdout ts @ [''Empty response received for '' @ sec]\<rparr>))"
proof -
  from e obtain out fd where
    p: "getValueAsElement sd i = Inr out" "getElement out FIELD_DATA = Inr fd"
       "and_then (getElement out SECURITY) getValueAsString = Inr sec"
    and m: "m = numElements fd"
    by (auto simp add: entry_fields_def and_then_Inr)
  from reference_entry_parsed [OF msg sd p, where ts = ts] m show ?thesis by simp
qed

lemma reference_loop:
  assumes msg: "first_message ev = Inr msg" and sd: "getElement msg SECURITY_DATA = Inr sd"
    and ref: "map_of (kwargs ts) ''startDate'' = None"
    and es: "traverse (entry_fields sd) is = Inr es"
  shows "\<exists>ts'. for_each (\<lambda>i self. if map_of (kwargs self) ''startDate'' \<noteq> None
                                   then historical_entry upd ev self
                                   else reference_entry ev i self) is ts
                 = ((if list_ex (\<lambda>e. 0 < snd e) es then Some (NameError ''_dict_from_element'') else None), ts')
              \<and> only_told ts ts' \<and> notified ts' = notified ts"
  using ref es
proof (induction "is" arbitrary: ts es)
  case Nil
  then show ?case by (simp add: only_told_refl)
next
  case (Cons i rest)
  from Cons.prems(2) obtain sec m es' where
    e: "entry_fields sd i = Inr (sec, m)" and t: "traverse (entry_fields sd) rest = Inr es'"
    and es: "es = (sec, m) # es'"
    by (auto split: sum.splits)
  note entry = reference_entry_fields [OF msg sd e, where ts = ts]
  show ?case
  proof (cases "0 < m")
    case True
    with entry Cons.prems(1) es show ?thesis by (simp add: only_told_refl)
  next
    case False
    let ?ts1 = "ts\<lparr>stdout := stdout ts @ [''Empty response received for '' @ sec]\<rparr>"
    have r: "map_of (kwargs ?ts1) ''startDate'' = None" using Cons.prems(1) by simp
    from Cons.IH [OF r t] obtain ts' where
      ts': "for_each (\<lambda>i self. if map_of (kwargs self) ''startDate'' \<noteq> None
                                   then historical_entry upd ev self
                                   else reference_entry ev i self) rest ?ts1
                 = ((if list_ex (\<lambda>e. 0 < snd e) es' then Some (NameError ''_dict_from_element'') else None), ts')"
        "only_told ?ts1 ts'" "notified ts' = notified ?ts1"
      by blast
    have "only_told ts ?ts1" by (simp add: only_told_def)
    from only_told_trans [OF this ts'(2)] have "only_told ts ts'" .
    with ts' entry False Cons.prems(1) es show ?thesis by simp
  qed
qed

lemma dispatch_reference:
  assumes ref: "map_of (kwargs ts) ''startDate'' = None"
    and es: "reference_entries ev = Inr es"
  shows "\<exists>ts'. dispatch upd ev ts
                 = ((if list_ex (\<lambda>e. 0 < snd e) es then Some (NameError ''_dict_from_element'') else None), ts')
              \<and> only_told ts ts' \<and> notified ts' = notified ts"
proof -
  from es obtain msg sd where msg: "first_message ev = Inr msg"
    and sd: "getElement msg SECURITY_DATA = Inr sd"
    and t: "traverse (entry_fields sd) [0..<numValues sd] = Inr es"
    by (auto simp add: reference_entries_def and_then_Inr)
  from reference_loop [OF msg sd ref t, of upd] msg sd show ?thesis
    by (simp add: dispatch_def and_then_def)
qed

lemma no_data_no_NameError:
  fixes es :: "(string \<times> nat) list"
  shows "list_all (\<lambda>e. snd e = 0) es \<Longrightarrow> \<not> list_ex (\<lambda>e. 0 < snd e) es"
  by (induction es) auto

lemma only_told_at:
  "only_told (a\<lparr>session := s\<rparr>) b \<Longrightarrow> only_told (a\<lparr>session := t\<rparr>) (b\<lparr>session := t\<rparr>)"
  unfolding only_told_def by (cases a, cases b) simp

lemma get_events_skip:
  assumes "map_of (kwargs ts) ''startDate'' = None"
    and "\<forall>i < n. \<exists>ev. incoming (session ts) (cursor (session ts) + i) = Inr ev
             \<and> eventType ev \<noteq> RESPONSE
             \<and> (eventType ev = PARTIAL_RESPONSE \<longrightarrow>
                  (\<exists>es. reference_entries ev = Inr es \<and> list_all (\<lambda>e. snd e = 0) es))"
  shows "\<exists>tn. get_events upd ts = get_events upd tn
            \<and> only_told (ts\<lparr>session := (session ts)\<lparr>cursor := cursor (session ts) + n\<rparr>\<rparr>) tn
            \<and> notified tn = notified ts"
  using assms
proof (induction n arbitrary: ts)
  case 0
  have "ts\<lparr>session := (session ts)\<lparr>cursor := cursor (session ts) + 0\<rparr>\<rparr> = ts" by simp
  then show ?case using only_told_refl [of ts] by (intro exI [of _ ts]) simp
next
  case (Suc n)
  let ?s1 = "(session ts)\<lparr>cursor := Suc (cursor (session ts))\<rparr>"
  let ?sn = "(session ts)\<lparr>cursor := cursor (session ts) + Suc n\<rparr>"
  from Suc.prems(2) obtain ev where ev: "incoming (session ts) (cursor (session ts)) = Inr ev"
    "eventType ev \<noteq> RESPONSE"
    and part: "eventType ev = PARTIAL_RESPONSE \<longrightarrow>
                  (\<exists>es. reference_entries ev = Inr es \<and> list_all (\<lambda>e. snd e = 0) es)"
    by force
  have "\<exists>t1. get_events upd ts = get_events upd t1 \<and> only_told (ts\<lparr>session := ?s1\<rparr>) t1
            \<and> notified t1 = notified ts"
  proof (cases "eventType ev = PARTIAL_RESPONSE")
    case False
    with ev have "get_events upd ts = get_events upd (ts\<lparr>session := ?s1\<rparr>)"
      by (subst get_events_step) simp
    then show ?thesis using only_told_refl [of "ts\<lparr>session := ?s1\<rparr>"]
      by (intro exI [of _ "ts\<lparr>session := ?s1\<rparr>"]) simp
  next
    case True
    with part obtain es where es: "reference_entries ev = Inr es" "list_all (\<lambda>e. snd e = 0) es"
      by blast
    have r: "map_of (kwargs (ts\<lparr>session := ?s1\<rparr>)) ''startDate'' = None" using Suc.prems(1) by simp
    from dispatch_reference [OF r es(1), of upd] no_data_no_NameError [OF es(2)] obtain t1 where
      t1: "dispatch upd ev (ts\<lparr>session := ?s1\<rparr>) = (None, t1)" "only_told (ts\<lparr>session := ?s1\<rparr>) t1"
        "notified t1 = notified (ts\<lparr>session := ?s1\<rparr>)"
      by auto
    from ev True t1(1) have "get_events upd ts = get_events upd t1"
      by (subst get_events_step) simp
    with t1 show ?thesis by (intro exI [of _ t1]) simp
  qed
  then obtain t1 where t1: "get_events upd ts = get_events upd t1"
    "only_told (ts\<lparr>session := ?s1\<rparr>) t1" "notified t1 = notified ts"
    by blast
  from only_told_session [OF t1(2)] have s1: "session t1 = ?s1" by simp
  from only_told_kwargs [OF t1(2)] Suc.prems(1) have r1: "map_of (kwargs t1) ''startDate'' = None"
    by simp
  have q1: "\<forall>i < n. \<exists>ev. incoming (session t1) (cursor (session t1) + i) = Inr ev
             \<and> eventType ev \<noteq> RESPONSE
             \<and> (eventType ev = PARTIAL_RESPONSE \<longrightarrow>
                  (\<exists>es. reference_entries ev = Inr es \<and> list_all (\<lambda>e. snd e = 0) es))"
  proof (intro allI impI)
    fix i assume "i < n"
    then have "Suc i < Suc n" by simp
    with Suc.prems(2) have "\<exists>ev. incoming (session ts) (cursor (session ts) + Suc i) = Inr ev
             \<and> eventType ev \<noteq> RESPONSE
             \<and> (eventType ev = PARTIAL_RESPONSE \<longrightarrow>
                  (\<exists>es. reference_entries ev = Inr es \<and> list_all (\<lambda>e. snd e = 0) es))"
      by blast
    then show "\<exists>ev. incoming (session t1) (cursor (session t1) + i) = Inr ev
             \<and> eventType ev \<noteq> RESPONSE
             \<and> (eventType ev = PARTIAL_RESPONSE \<longrightarrow>
                  (\<exists>es. reference_entries ev = Inr es \<and> list_all (\<lambda>e. snd e = 0) es))"
      by (simp add: s1)
  qed
  from Suc.IH [OF r1 q1] obtain tn where
    tn: "get_events upd t1 = get_events upd tn"
      "only_told (t1\<lparr>session := (session t1)\<lparr>cursor := cursor (session t1) + n\<rparr>\<rparr>) tn"
      "notified tn = notified t1"
    by blast
  have "only_told (ts\<lparr>session := ?sn\<rparr>) (t1\<lparr>session := ?sn\<rparr>)"
    by (rule only_told_at [OF t1(2)])
  moreover have "t1\<lparr>session := (session t1)\<lparr>cursor := cursor (session t1) + n\<rparr>\<rparr> = t1\<lparr>session := ?sn\<rparr>"
    by (simp add: s1)
  ultimately have "only_told (ts\<lparr>session := ?sn\<rparr>) tn"
    using tn(2) only_told_trans by metis
  with t1 tn show ?case by (intro exI [of _ tn]) simp
qed

lemma fillRequest_notified: "fillRequest self a b kw = (r, self') \<Longrightarrow> notified self' = notified self"
  by (auto simp add: fillRequest_def fill_historical_def fill_reference_def on_request_def Let_def
      split: if_splits option.splits sum.splits prod.splits)

lemma get_send_notified:
  "get_send self a b kw = (r, self') \<Longrightarrow> notified self' = notified self"
  by (auto simp add: get_send_def split: if_splits option.splits sum.splits prod.splits
      dest: fillRequest_notified)

text \<open>
  C8. Take a call of \<open>BLPTS.get\<close> for a reference request (no \<open>startDate\<close> among the
  keyword arguments in force) whose request is filled and sent. Let an event of the
  response (a \<open>RESPONSE\<close> or \<open>PARTIAL_RESPONSE\<close>, read as the reference branch reads
  it) hold a security with at least one field-data element, and let nothing but events
  that are no response and partial responses without any field data come before it. Then
  the call raises \<open>NameError\<close> for \<open>_dict_from_element\<close>, and no observer has been
  notified.
\<close>

theorem reference_get_raises_NameError:
  assumes send: "get_send self newSecurities newFields kw = (None, ts)"
    and ref: "map_of (kwargs ts) ''startDate'' = None"
    and before: "\<forall>i < n. \<exists>ev'. incoming (session ts) (cursor (session ts) + i) = Inr ev'
                  \<and> eventType ev' \<noteq> RESPONSE
                  \<and> (eventType ev' = PARTIAL_RESPONSE \<longrightarrow>
                       (\<exists>es'. reference_entries ev' = Inr es' \<and> list_all (\<lambda>e. snd e = 0) es'))"
    and ev: "incoming (session ts) (cursor (session ts) + n) = Inr ev"
    and kind: "eventType ev = RESPONSE \<or> eventType ev = PARTIAL_RESPONSE"
    and entries: "reference_entries ev = Inr es"
    and data: "list_ex (\<lambda>e. 0 < snd e) es"
  shows "\<exists>ts'. get upd self newSecurities newFields kw
                 = Some (Inl (NameError ''_dict_from_element''), ts')
              \<and> notified ts' = notified self"
proof -
  let ?c = "cursor (session ts)"
  from get_events_skip [OF ref before, of upd] obtain tn where
    tn: "get_events upd ts = get_events upd tn"
      "only_told (ts\<lparr>session := (session ts)\<lparr>cursor := ?c + n\<rparr>\<rparr>) tn"
      "notified tn = notified ts"
    by blast
  from only_told_session [OF tn(2)] have sn: "session tn = (session ts)\<lparr>cursor := ?c + n\<rparr>" by simp
  from only_told_kwargs [OF tn(2)] ref have rn: "map_of (kwargs tn) ''startDate'' = None" by simp
  let ?t1 = "tn\<lparr>session := (session tn)\<lparr>cursor := Suc (cursor (session tn))\<rparr>\<rparr>"
  have r1: "map_of (kwargs ?t1) ''startDate'' = None" using rn by simp
  from dispatch_reference [OF r1 entries, of upd] data obtain ts' where
    disp: "dispatch upd ev ?t1 = (Some (NameError ''_dict_from_element''), ts')"
    and told: "notified ts' = notified ?t1"
    by auto
  have "get upd self newSecurities newFields kw = get_events upd ts"
    using send by (simp add: get_def)
  also note tn(1)
  also have "get_events upd tn = Some (Inl (NameError ''_dict_from_element''), ts')"
    using ev kind disp sn by (subst get_events_step) auto
  finally have "get upd self newSecurities newFields kw
                 = Some (Inl (NameError ''_dict_from_element''), ts')" .
  moreover have "notified ts' = notified self"
    using told tn(3) get_send_notified [OF send] by simp
  ultimately show ?thesis by blast
qed

lemma get_reference_run:
  "get upd ((reference_watcher reference_response)\<lparr>observers := [1, 2]\<rparr>) (Many []) (Many []) [] =
     Some (Inl (NameError ''_dict_from_element''),
       (reference_watcher reference_response)
         \<lparr>session := (line reference_response)\<lparr>cursor := 1,
              sent := [the (request (reference_watcher reference_response))]\<rparr>,
          observers := [1, 2]\<rparr>)"
  apply (simp add: get_def get_send_def reference_watcher_eq session_defs)
  apply (subst get_events_step)
  apply (simp add: session_defs reference_response_def dispatch_def reference_entry_def vendor_defs)
  done

theorem reference_get_raises_NameError_witness:
  "get returns ((reference_watcher reference_response)\<lparr>observers := [1, 2]\<rparr>) (Many []) (Many []) [] =
     Some (Inl (NameError ''_dict_from_element''),
       (reference_watcher reference_response)
         \<lparr>session := (line reference_response)\<lparr>cursor := 1,
              sent := [the (request (reference_watcher reference_response))]\<rparr>,
          observers := [1, 2]\<rparr>)
   \<and> notified ((reference_watcher reference_response)
         \<lparr>session := (line reference_response)\<lparr>cursor := 1,
              sent := [the (request (reference_watcher reference_response))]\<rparr>,
          observers := [1, 2]\<rparr>) = []
   \<and> reference_entries reference_response = Inr [(''IBM US Equity'', 1)]"
proof -
  let ?self = "(reference_watcher reference_response)\<lparr>observers := [1, 2]\<rparr> :: nat blpts"
  let ?ts = "?self\<lparr>session := (line reference_response)
                \<lparr>sent := [the (request (reference_watcher reference_response))]\<rparr>\<rparr>"
  have send: "get_send ?self (Many []) (Many []) [] = (None, ?ts)"
    by (simp add: get_send_def reference_watcher_eq session_defs)
  have ref: "map_of (kwargs ?ts) ''startDate'' = None"
    by (simp add: reference_watcher_eq)
  have before: "\<forall>i < (0::nat). \<exists>ev'. incoming (session ?ts) (cursor (session ?ts) + i) = Inr ev'
                  \<and> eventType ev' \<noteq> RESPONSE
                  \<and> (eventType ev' = PARTIAL_RESPONSE \<longrightarrow>
                       (\<exists>es'. reference_entries ev' = Inr es' \<and> list_all (\<lambda>e. snd e = 0) es'))"
    by simp
  have ev: "incoming (session ?ts) (cursor (session ?ts) + 0) = Inr reference_response"
    by (simp add: session_defs)
  have kind: "eventType reference_response = RESPONSE \<or> eventType reference_response = PARTIAL_RESPONSE"
    by (simp add: reference_response_def)
  have entries: "reference_entries reference_response = Inr [(''IBM US Equity'', 1)]"
    by (simp add: reference_entries_def entry_fields_def reference_response_def vendor_defs)
  have data: "list_ex (\<lambda>e. 0 < snd e) [(''IBM US Equity'', 1::nat)]"
    by simp
  from reference_get_raises_NameError [OF send ref before ev kind entries data, of returns]
    get_reference_run [of returns] entries
  show ?thesis
    by (simp add: reference_watcher_eq)
qed

end
